theory Spec2Isabelle
  imports Main
begin

section \<open>Python values as the handlers see them\<close>

text \<open>
  Both services are Flask applications whose handlers read query parameters, JSON bodies
  and environment variables, call the provider through \<^verbatim>\<open>requests\<close>, and answer with
  \<^verbatim>\<open>jsonify\<close>. A Python \<^verbatim>\<open>str\<close> is represented by its UTF-8 encoding, so a \<open>string\<close> here
  is a list of bytes. JSON numbers are integers (floating point is not represented).
\<close>

datatype json =
    JNull
  | JBool bool
  | JInt int
  | JStr string
  | JArr "json list"
  | JObj "(string \<times> json) list"

text \<open>Exceptions that the handlers can raise and nothing catches: Flask answers 500.\<close>

datatype exn =
    AttributeError
  | TypeError
  | KeyError
  | ValueError
  | BinasciiError
  | JSONDecodeError
  | RequestException

text \<open>Truth value testing, as in \<^verbatim>\<open>if not x\<close>.\<close>

fun truthy :: "json \<Rightarrow> bool" where
  "truthy JNull = False"
| "truthy (JBool b) = b"
| "truthy (JInt i) = (i \<noteq> 0)"
| "truthy (JStr s) = (s \<noteq> [])"
| "truthy (JArr xs) = (xs \<noteq> [])"
| "truthy (JObj kvs) = (kvs \<noteq> [])"

text \<open>\<^verbatim>\<open>m.get(k)\<close> on a Flask \<^verbatim>\<open>args\<close> or \<^verbatim>\<open>headers\<close> mapping, and \<^verbatim>\<open>os.environ.get(k)\<close>:
  the string, or \<^verbatim>\<open>None\<close>.\<close>

definition str_or_none :: "string option \<Rightarrow> json" where
  "str_or_none v = (case v of None \<Rightarrow> JNull | Some s \<Rightarrow> JStr s)"

text \<open>\<^verbatim>\<open>d.get(k, default)\<close> on a parsed JSON value: only a dict has \<^verbatim>\<open>get\<close>.\<close>

definition py_get_default :: "json \<Rightarrow> string \<Rightarrow> json \<Rightarrow> exn + json" where
  "py_get_default d k dflt =
     (case d of
        JObj kvs \<Rightarrow> (case map_of kvs k of None \<Rightarrow> Inr dflt | Some v \<Rightarrow> Inr v)
      | _ \<Rightarrow> Inl AttributeError)"

definition py_get :: "json \<Rightarrow> string \<Rightarrow> exn + json" where
  "py_get d k = py_get_default d k JNull"

text \<open>\<^verbatim>\<open>item[k]\<close> with a string key: a dict without the key raises \<^verbatim>\<open>KeyError\<close>, every
  other value raises \<^verbatim>\<open>TypeError\<close>.\<close>

definition py_subscript :: "json \<Rightarrow> string \<Rightarrow> exn + json" where
  "py_subscript d k =
     (case d of
        JObj kvs \<Rightarrow> (case map_of kvs k of None \<Rightarrow> Inl KeyError | Some v \<Rightarrow> Inr v)
      | _ \<Rightarrow> Inl TypeError)"

text \<open>
  \<^verbatim>\<open>str(v)\<close>, which is what an f-string puts in place of \<^verbatim>\<open>{v}\<close>. The text of a list
  or of a dict is Python's \<^verbatim>\<open>repr\<close>, which is not modelled: it is left unspecified, so
  nothing proved below depends on it.
\<close>

fun dec_nat :: "nat \<Rightarrow> string" where
  "dec_nat n =
     (if n < 10 then [''0123456789'' ! n]
      else dec_nat (n div 10) @ [''0123456789'' ! (n mod 10)])"

declare dec_nat.simps [simp del]

definition dec_int :: "int \<Rightarrow> string" where
  "dec_int i = (if i < 0 then CHR ''-'' # dec_nat (nat (- i)) else dec_nat (nat i))"

fun py_str :: "json \<Rightarrow> string" where
  "py_str JNull = ''None''"
| "py_str (JBool b) = (if b then ''True'' else ''False'')"
| "py_str (JInt i) = dec_int i"
| "py_str (JStr s) = s"
| "py_str (JArr xs) = undefined"
| "py_str (JObj kvs) = undefined"

text \<open>Sequencing of steps that may raise.\<close>

definition and_then :: "exn + 'a \<Rightarrow> ('a \<Rightarrow> exn + 'b) \<Rightarrow> exn + 'b" where
  "and_then m k = (case m of Inl e \<Rightarrow> Inl e | Inr v \<Rightarrow> k v)"

fun map_raising :: "('a \<Rightarrow> exn + 'b) \<Rightarrow> 'a list \<Rightarrow> exn + 'b list" where
  "map_raising f [] = Inr []"
| "map_raising f (x # xs) =
     and_then (f x) (\<lambda>y. and_then (map_raising f xs) (\<lambda>ys. Inr (y # ys)))"

section \<open>Library functions the handlers call\<close>

subsection \<open>Strings\<close>

text \<open>\<^verbatim>\<open>s.split(sep)\<close> for a separator of one character.\<close>

fun py_split :: "string \<Rightarrow> char \<Rightarrow> string list" where
  "py_split [] sep = [[]]"
| "py_split (c # cs) sep =
     (if c = sep then [] # py_split cs sep
      else (c # hd (py_split cs sep)) # tl (py_split cs sep))"

text \<open>The characters of a \<^verbatim>\<open>str\<close>: in UTF-8 each one is a lead byte followed by its
  continuation bytes (\<open>0x80\<close> to \<open>0xBF\<close>).\<close>

definition is_continuation :: "char \<Rightarrow> bool" where
  "is_continuation c = (128 \<le> (of_char c :: nat) \<and> (of_char c :: nat) < 192)"

definition py_chars :: "string \<Rightarrow> string list" where
  "py_chars s =
     snd (foldr (\<lambda>c (pending, done).
                   if is_continuation c then (c # pending, done)
                   else ([], (c # pending) # done)) s ([], []))"

text \<open>What a \<^verbatim>\<open>for\<close> loop or a comprehension iterates over: the elements of a list, the
  keys of a dict, the characters of a string; anything else is not iterable.\<close>

definition py_iter :: "json \<Rightarrow> exn + json list" where
  "py_iter v =
     (case v of
        JArr xs \<Rightarrow> Inr xs
      | JObj kvs \<Rightarrow> Inr (map (\<lambda>kv. JStr (fst kv)) kvs)
      | JStr s \<Rightarrow> Inr (map JStr (py_chars s))
      | _ \<Rightarrow> Inl TypeError)"

text \<open>\<^verbatim>\<open>sep.join(xs)\<close>: every element has to be a \<^verbatim>\<open>str\<close>.\<close>

fun py_join :: "string \<Rightarrow> json list \<Rightarrow> exn + string" where
  "py_join sep [] = Inr []"
| "py_join sep [JStr s] = Inr s"
| "py_join sep (JStr s # x # xs) = and_then (py_join sep (x # xs)) (\<lambda>r. Inr (s @ sep @ r))"
| "py_join sep (_ # xs) = Inl TypeError"

subsection \<open>\<^verbatim>\<open>urllib.parse.quote_plus\<close>\<close>

text \<open>With the default empty \<^verbatim>\<open>safe\<close>: letters, digits and \<^verbatim>\<open>_.-~\<close> stay, a space becomes
  \<^verbatim>\<open>+\<close>, every other byte of the UTF-8 encoding becomes \<^verbatim>\<open>%XX\<close>. Only \<^verbatim>\<open>str\<close> (and
  \<^verbatim>\<open>bytes\<close>) are accepted.\<close>

definition always_safe :: string where
  "always_safe = ''ABCDEFGHIJKLMNOPQRSTUVWXYZabcdefghijklmnopqrstuvwxyz0123456789_.-~''"

definition hex_digit :: "nat \<Rightarrow> char" where
  "hex_digit n = ''0123456789ABCDEF'' ! n"

definition quote_byte :: "char \<Rightarrow> string" where
  "quote_byte c =
     (if c \<in> set always_safe then [c]
      else if c = CHR '' '' then ''+''
      else [CHR ''%'', hex_digit ((of_char c :: nat) div 16), hex_digit ((of_char c :: nat) mod 16)])"

definition quote_plus :: "json \<Rightarrow> exn + string" where
  "quote_plus v = (case v of JStr s \<Rightarrow> Inr (concat (map quote_byte s)) | _ \<Rightarrow> Inl TypeError)"

subsection \<open>\<^verbatim>\<open>base64.b64decode\<close> and \<^verbatim>\<open>bytes.decode('utf-8')\<close>\<close>

definition b64_alphabet :: string where
  "b64_alphabet = ''ABCDEFGHIJKLMNOPQRSTUVWXYZabcdefghijklmnopqrstuvwxyz0123456789+/''"

fun index_of :: "'a \<Rightarrow> 'a list \<Rightarrow> nat option" where
  "index_of x [] = None"
| "index_of x (y # ys) =
     (if x = y then Some 0 else map_option Suc (index_of x ys))"

text \<open>
  \<^verbatim>\<open>binascii.a2b_base64\<close> in its default, non-strict mode: characters outside the alphabet
  are skipped, a pad sequence that completes a quad ends the input, and leftover characters
  of an incomplete quad are an error. \<open>quad_pos\<close> counts the characters of the current
  quad, \<open>leftchar\<close> holds the bits not yet written, \<open>pads\<close> the pad characters seen.
\<close>

fun a2b_base64 :: "string \<Rightarrow> nat \<Rightarrow> nat \<Rightarrow> nat \<Rightarrow> nat list \<Rightarrow> exn + nat list" where
  "a2b_base64 [] quad_pos leftchar pads bin_data =
     (if quad_pos \<noteq> 0 then Inl BinasciiError else Inr bin_data)"
| "a2b_base64 (c # cs) quad_pos leftchar pads bin_data =
     (if c = CHR ''='' then
        (if quad_pos \<ge> 2 \<and> quad_pos + (pads + 1) \<ge> 4 then Inr bin_data
         else a2b_base64 cs quad_pos leftchar (if quad_pos \<ge> 2 then pads + 1 else pads) bin_data)
      else
        (case index_of c b64_alphabet of
           None \<Rightarrow> a2b_base64 cs quad_pos leftchar pads bin_data
         | Some this_ch \<Rightarrow>
             (if quad_pos = 0 then a2b_base64 cs 1 this_ch 0 bin_data
              else if quad_pos = 1 then
                a2b_base64 cs 2 (this_ch mod 16) 0 (bin_data @ [leftchar * 4 + this_ch div 16])
              else if quad_pos = 2 then
                a2b_base64 cs 3 (this_ch mod 4) 0 (bin_data @ [leftchar * 16 + this_ch div 4])
              else
                a2b_base64 cs 0 0 0 (bin_data @ [leftchar * 64 + this_ch]))))"

text \<open>\<^verbatim>\<open>base64.b64decode(v)\<close>: a string has to be ASCII, anything that is not a string (or
  bytes) is a \<^verbatim>\<open>TypeError\<close>. The result is the list of decoded bytes.\<close>

definition b64decode :: "json \<Rightarrow> exn + nat list" where
  "b64decode v =
     (case v of
        JStr s \<Rightarrow>
          (if \<exists>c \<in> set s. (of_char c :: nat) \<ge> 128 then Inl ValueError
           else a2b_base64 s 0 0 0 [])
      | _ \<Rightarrow> Inl TypeError)"

text \<open>Well-formed UTF-8 (Unicode, table 3-7), which is what Python's strict decoder accepts:
  no overlong forms, no surrogates, nothing above \<open>U+10FFFF\<close>.\<close>

definition cont :: "nat \<Rightarrow> bool" where
  "cont b = (128 \<le> b \<and> b \<le> 191)"

fun utf8_valid :: "nat list \<Rightarrow> bool" where
  "utf8_valid [] = True"
| "utf8_valid (b0 # bs) =
     (if b0 < 128 then utf8_valid bs
      else if 194 \<le> b0 \<and> b0 \<le> 223 then
        (case bs of b1 # r \<Rightarrow> cont b1 \<and> utf8_valid r | _ \<Rightarrow> False)
      else if 224 \<le> b0 \<and> b0 \<le> 239 then
        (case bs of
           b1 # b2 # r \<Rightarrow>
             (if b0 = 224 then 160 \<le> b1 \<and> b1 \<le> 191
              else if b0 = 237 then 128 \<le> b1 \<and> b1 \<le> 159
              else cont b1) \<and> cont b2 \<and> utf8_valid r
         | _ \<Rightarrow> False)
      else if 240 \<le> b0 \<and> b0 \<le> 244 then
        (case bs of
           b1 # b2 # b3 # r \<Rightarrow>
             (if b0 = 240 then 144 \<le> b1 \<and> b1 \<le> 191
              else if b0 = 244 then 128 \<le> b1 \<and> b1 \<le> 143
              else cont b1) \<and> cont b2 \<and> cont b3 \<and> utf8_valid r
         | _ \<Rightarrow> False)
      else False)"

text \<open>\<^verbatim>\<open>bytes.decode('utf-8')\<close>: the text, which is represented by the same bytes, or
  \<^verbatim>\<open>UnicodeDecodeError\<close> (\<open>None\<close>), the one exception a handler catches.\<close>

definition decode_utf8 :: "nat list \<Rightarrow> string option" where
  "decode_utf8 bs = (if utf8_valid bs then Some (map char_of bs) else None)"

section \<open>Inbound requests, upstream calls, outcomes\<close>

text \<open>
  \<open>req_json\<close> is Flask's \<^verbatim>\<open>request.json\<close>: the parsed body, or the HTTP error with which
  Flask aborts the request when the body is not JSON.
\<close>

record request =
  req_headers :: "string \<rightharpoonup> string"
  req_args :: "string \<rightharpoonup> string"
  req_json :: "int + json"

datatype http_method = GET | POST

record call =
  meth :: http_method
  url :: string
  hdrs :: "(string \<times> string option) list"
  payload :: "json option"

record response =
  status_code :: int
  resp_text :: string
  resp_json :: "json option"

text \<open>
  The provider: its answer to a call may depend on the calls made before. \<open>Inl e\<close> is
  \<^verbatim>\<open>requests\<close> raising. Every handler threads the list of calls it has made.
\<close>

type_synonym upstream = "call list \<Rightarrow> call \<Rightarrow> exn + response"

type_synonym environ = "string \<rightharpoonup> string"

datatype outcome =
    Json json int
  | Abort int
  | Raise exn

type_synonym view = "request \<Rightarrow> call list \<Rightarrow> outcome \<times> call list"

definition get_call :: "string \<Rightarrow> (string \<times> string option) list \<Rightarrow> call" where
  "get_call u headers = \<lparr>meth = GET, url = u, hdrs = headers, payload = None\<rparr>"

definition post_call :: "string \<Rightarrow> (string \<times> string option) list \<Rightarrow> json \<Rightarrow> call" where
  "post_call u headers data = \<lparr>meth = POST, url = u, hdrs = headers, payload = Some data\<rparr>"

definition requests_get ::
  "upstream \<Rightarrow> string \<Rightarrow> (string \<times> string option) list \<Rightarrow> call list
     \<Rightarrow> (exn + response) \<times> call list" where
  "requests_get up u headers log =
     (let c = get_call u headers in (up log c, log @ [c]))"

definition requests_post ::
  "upstream \<Rightarrow> string \<Rightarrow> (string \<times> string option) list \<Rightarrow> json \<Rightarrow> call list
     \<Rightarrow> (exn + response) \<times> call list" where
  "requests_post up u headers data log =
     (let c = post_call u headers data in (up log c, log @ [c]))"

text \<open>\<^verbatim>\<open>response.json()\<close> raises when the body is not JSON.\<close>

definition response_json :: "response \<Rightarrow> exn + json" where
  "response_json r = (case resp_json r of None \<Rightarrow> Inl JSONDecodeError | Some j \<Rightarrow> Inr j)"

section \<open>The auth gate\<close>

text \<open>\<^verbatim>\<open>require_api_key\<close>, the same decorator in both services. \<open>RHINO_API_KEY\<close> is the
  module global read from the environment when the service starts.\<close>

definition require_api_key :: "string option \<Rightarrow> view \<Rightarrow> view" where
  "require_api_key RHINO_API_KEY view_function req log =
     (if truthy (str_or_none (req_headers req ''X-Api-Key''))
         \<and> req_headers req ''X-Api-Key'' = RHINO_API_KEY
      then view_function req log
      else (Abort 401, log))"

section \<open>The GitHub service\<close>

definition os_environ_get :: "environ \<Rightarrow> string \<Rightarrow> json" where
  "os_environ_get environ k = str_or_none (environ k)"

definition args_get :: "request \<Rightarrow> string \<Rightarrow> json" where
  "args_get req k = str_or_none (req_args req k)"

text \<open>\<^verbatim>\<open>request.json.get(k)\<close>: Flask aborts when there is no JSON body, and only a dict has
  \<^verbatim>\<open>get\<close>.\<close>

definition json_get :: "request \<Rightarrow> string \<Rightarrow> outcome + json" where
  "json_get req k =
     (case req_json req of
        Inl status \<Rightarrow> Inl (Abort status)
      | Inr body \<Rightarrow> (case py_get body k of Inl e \<Rightarrow> Inl (Raise e) | Inr v \<Rightarrow> Inr v))"

text \<open>A handler that ends with \<^verbatim>\<open>return jsonify(...)\<close>, whose argument may raise while it
  is built.\<close>

definition returning :: "exn + json \<Rightarrow> call list \<Rightarrow> outcome \<times> call list" where
  "returning m log = (case m of Inl e \<Rightarrow> (Raise e, log) | Inr body \<Rightarrow> (Json body 200, log))"

definition gh_check_branch_exists ::
  "environ \<Rightarrow> upstream \<Rightarrow> json \<Rightarrow> json \<Rightarrow> call list \<Rightarrow> (exn + bool) \<times> call list" where
  "gh_check_branch_exists environ up repo_full_name branch_name log =
     (let github_api_url = ''https://api.github.com/repos/'' @ py_str repo_full_name
                             @ ''/branches/'' @ py_str branch_name;
          headers = [(''Authorization'',
                      Some (''token '' @ py_str (os_environ_get environ ''GITHUB_TOKEN'')))];
          (r, log1) = requests_get up github_api_url headers log
      in case r of
           Inl e \<Rightarrow> (Inl e, log1)
         | Inr response \<Rightarrow> (Inr (status_code response = 200), log1))"

text \<open>
  The block \<^verbatim>\<open>if not branch_name: ...\<close> that \<^verbatim>\<open>get_file_content\<close> and
  \<^verbatim>\<open>get_repo_structure\<close> both start with: it leaves the handler (\<open>Inl\<close>) with the 404
  answer or an exception, or goes on (\<open>Inr\<close>) with the value of \<^verbatim>\<open>branch_name\<close>.
\<close>

definition gh_default_branch ::
  "environ \<Rightarrow> upstream \<Rightarrow> json \<Rightarrow> json \<Rightarrow> call list \<Rightarrow> (outcome + json) \<times> call list" where
  "gh_default_branch environ up repo_full_name branch_name log =
     (if \<not> truthy branch_name then
        (let (r1, log1) = gh_check_branch_exists environ up repo_full_name (JStr ''main'') log
         in case r1 of
              Inl e \<Rightarrow> (Inl (Raise e), log1)
            | Inr True \<Rightarrow> (Inr (JStr ''main''), log1)
            | Inr False \<Rightarrow>
                (let (r2, log2) =
                       gh_check_branch_exists environ up repo_full_name (JStr ''master'') log1
                 in case r2 of
                      Inl e \<Rightarrow> (Inl (Raise e), log2)
                    | Inr True \<Rightarrow> (Inr (JStr ''master''), log2)
                    | Inr False \<Rightarrow>
                        (Inl (Json (JObj [(''code'', JInt 404),
                                          (''message'', JStr ''No main or master branch found'')])
                                404), log2)))
      else (Inr branch_name, log))"

definition gh_pr_reshape :: "response \<Rightarrow> response \<Rightarrow> exn + json" where
  "gh_pr_reshape response diff_response =
     and_then (response_json response) (\<lambda>pr_content.
     and_then (py_get_default pr_content ''head'' (JObj [])) (\<lambda>head1.
     and_then (py_get head1 ''ref'') (\<lambda>source_branch.
     and_then (py_get_default pr_content ''head'' (JObj [])) (\<lambda>head2.
     and_then (py_get_default head2 ''repo'' (JObj [])) (\<lambda>repo.
     and_then (py_get repo ''full_name'') (\<lambda>source_repo.
     and_then (py_get pr_content ''title'') (\<lambda>title.
     and_then (py_get pr_content ''body'') (\<lambda>body.
       Inr (JObj [(''title'', title),
                  (''body'', body),
                  (''source_branch'', source_branch),
                  (''source_repo'', source_repo),
                  (''code_changes'', JStr (resp_text diff_response))])))))))))"

definition gh_get_pr_content :: "environ \<Rightarrow> upstream \<Rightarrow> view" where
  "gh_get_pr_content environ up req log =
     (let repo_full_name = args_get req ''repo_full_name'';
          pr_number = args_get req ''pr_number''
      in if \<not> truthy repo_full_name \<or> \<not> truthy pr_number then
           (Json (JObj [(''code'', JInt 400),
                        (''message'', JStr ''Missing repo_full_name or pr_number'')]) 400, log)
         else
           (let github_api_url = ''https://api.github.com/repos/'' @ py_str repo_full_name
                                   @ ''/pulls/'' @ py_str pr_number;
                headers = [(''Authorization'',
                            Some (''token '' @ py_str (os_environ_get environ ''GITHUB_TOKEN'')))];
                (r, log1) = requests_get up github_api_url headers log
            in case r of
                 Inl e \<Rightarrow> (Raise e, log1)
               | Inr response \<Rightarrow>
                   if status_code response = 404 then
                     (Json (JObj [(''code'', JInt 404),
                                  (''message'', JStr ''Pull Request not found'')]) 404, log1)
                   else if status_code response \<noteq> 200 then
                     (Json (JObj [(''code'', JInt (status_code response)),
                                  (''message'', JStr ''Unexpected error occurred'')])
                        (status_code response), log1)
                   else
                     (let diff_headers =
                            [(''Authorization'',
                              Some (''token '' @ py_str (os_environ_get environ ''GITHUB_TOKEN''))),
                             (''Accept'', Some ''application/vnd.github.v3.diff'')];
                          (r2, log2) = requests_get up github_api_url diff_headers log1
                      in case r2 of
                           Inl e \<Rightarrow> (Raise e, log2)
                         | Inr diff_response \<Rightarrow>
                             if status_code diff_response \<noteq> 200 then
                               (Json (JObj [(''code'', JInt (status_code diff_response)),
                                            (''message'', JStr ''Failed to get PR diff'')])
                                  (status_code diff_response), log2)
                             else returning (gh_pr_reshape response diff_response) log2)))"

text \<open>The message of the binary-file answer is Chinese text around the file path; these are
  the bytes of its two parts.\<close>

definition binary_message_prefix :: string where
  "binary_message_prefix =
     map char_of [230, 151, 160, 230, 179, 149, 230, 152, 190, 231, 164, 186, 32 :: nat]"

definition binary_message_suffix :: string where
  "binary_message_suffix =
     map char_of [32, 231, 154, 132, 229, 134, 133, 229, 174, 185, 239, 188, 140, 232, 191,
       153, 229, 143, 175, 232, 131, 189, 230, 152, 175, 228, 184, 128, 228, 184, 170, 228,
       186, 140, 232, 191, 155, 229, 136, 182, 230, 150, 135, 228, 187, 182 :: nat]"

text \<open>Lines 94 to 104 of \<^verbatim>\<open>get_file_content\<close>: the \<^verbatim>\<open>content\<close> field, decoded.\<close>

definition gh_decode_content :: "json \<Rightarrow> response \<Rightarrow> call list \<Rightarrow> outcome \<times> call list" where
  "gh_decode_content file_path response log =
     (case and_then (response_json response) (\<lambda>j. py_get j ''content'') of
        Inl e \<Rightarrow> (Raise e, log)
      | Inr file_content_encoded \<Rightarrow>
          if file_content_encoded = JNull then
            (Json (JObj [(''code'', JInt 500),
                         (''message'', JStr ''No content found in the response'')]) 500, log)
          else
            (case b64decode file_content_encoded of
               Inl e \<Rightarrow> (Raise e, log)
             | Inr bs \<Rightarrow>
                 (case decode_utf8 bs of
                    Some file_content_decoded \<Rightarrow>
                      (Json (JObj [(''content'', JStr file_content_decoded)]) 200, log)
                  | None \<Rightarrow>
                      (Json (JObj [(''error'',
                                    JStr (binary_message_prefix @ py_str file_path
                                            @ binary_message_suffix))]) 500, log))))"

definition gh_get_file_content :: "environ \<Rightarrow> upstream \<Rightarrow> view" where
  "gh_get_file_content environ up req log =
     (let repo_full_name = args_get req ''repo_full_name'';
          file_path = args_get req ''file_path'';
          branch_name0 = args_get req ''branch_name'';
          (b, log1) = gh_default_branch environ up repo_full_name branch_name0 log
      in case b of
           Inl out \<Rightarrow> (out, log1)
         | Inr branch_name \<Rightarrow>
             if \<not> truthy repo_full_name \<or> \<not> truthy file_path then
               (Json (JObj [(''code'', JInt 400),
                            (''message'', JStr ''Missing repo_full_name or file_path'')]) 400, log1)
             else
               (let github_api_url = ''https://api.github.com/repos/'' @ py_str repo_full_name
                                       @ ''/contents/'' @ py_str file_path
                                       @ ''?ref='' @ py_str branch_name;
                    headers = [(''Authorization'',
                                Some (''token '' @ py_str (os_environ_get environ ''GITHUB_TOKEN'')))];
                    (r, log2) = requests_get up github_api_url headers log1
                in case r of
                     Inl e \<Rightarrow> (Raise e, log2)
                   | Inr response \<Rightarrow>
                       if status_code response \<noteq> 200 then
                         (Json (JObj [(''code'', JInt (status_code response)),
                                      (''message'', JStr (''Failed to fetch file content from ''
                                                           @ py_str branch_name @ '' branch''))])
                            (status_code response), log2)
                       else gh_decode_content file_path response log2))"

definition gh_get_issue_info :: "environ \<Rightarrow> upstream \<Rightarrow> view" where
  "gh_get_issue_info environ up req log =
     (let repo_full_name = args_get req ''repo_full_name'';
          issue_number = args_get req ''issue_number''
      in if \<not> truthy repo_full_name \<or> \<not> truthy issue_number then
           (Json (JObj [(''code'', JInt 400),
                        (''message'', JStr ''Missing repo_full_name or issue_number'')]) 400, log)
         else
           (let github_api_url = ''https://api.github.com/repos/'' @ py_str repo_full_name
                                   @ ''/issues/'' @ py_str issue_number;
                headers = [(''Authorization'',
                            Some (''token '' @ py_str (os_environ_get environ ''GITHUB_TOKEN'')))];
                (r, log1) = requests_get up github_api_url headers log
            in case r of
                 Inl e \<Rightarrow> (Raise e, log1)
               | Inr response \<Rightarrow>
                   if status_code response \<noteq> 200 then
                     (Json (JObj [(''code'', JInt (status_code response)),
                                  (''message'', JStr ''Failed to fetch issue info'')])
                        (status_code response), log1)
                   else
                     returning
                       (and_then (response_json response) (\<lambda>issue_info.
                        and_then (py_get issue_info ''title'') (\<lambda>title.
                        and_then (py_get issue_info ''body'') (\<lambda>body.
                          Inr (JObj [(''title'', title), (''description'', body)])))))
                       log1))"

definition gh_submit_pr_comment :: "environ \<Rightarrow> upstream \<Rightarrow> view" where
  "gh_submit_pr_comment environ up req log =
     (let token = os_environ_get environ ''GITHUB_TOKEN''
      in if \<not> truthy token then
           (Json (JObj [(''code'', JInt 401),
                        (''message'', JStr ''GitHub access token is not set'')]) 401, log)
         else
           (case json_get req ''repo_full_name'' of
              Inl out \<Rightarrow> (out, log)
            | Inr repo_full_name \<Rightarrow>
           (case json_get req ''pr_number'' of
              Inl out \<Rightarrow> (out, log)
            | Inr pr_number \<Rightarrow>
           (case json_get req ''comment_body'' of
              Inl out \<Rightarrow> (out, log)
            | Inr comment_body \<Rightarrow>
                if \<not> truthy repo_full_name \<or> \<not> truthy pr_number \<or> \<not> truthy comment_body then
                  (Json (JObj [(''code'', JInt 400),
                               (''message'', JStr ''Missing required parameters'')]) 400, log)
                else
                  (let comment_url = ''https://api.github.com/repos/'' @ py_str repo_full_name
                                       @ ''/issues/'' @ py_str pr_number @ ''/comments'';
                       headers = [(''Authorization'', Some (''token '' @ py_str token)),
                                  (''Accept'', Some ''application/vnd.github.v3+json'')];
                       data = JObj [(''body'', comment_body)];
                       (r, log1) = requests_post up comment_url headers data log
                   in case r of
                        Inl e \<Rightarrow> (Raise e, log1)
                      | Inr response \<Rightarrow>
                          if status_code response \<noteq> 201 then
                            (Json (JObj [(''code'', JInt (status_code response)),
                                         (''message'', JStr ''Failed to create comment'')])
                               (status_code response), log1)
                          else
                            (Json (JObj [(''message'', JStr ''Comment created successfully'')])
                               201, log1))))))"

text \<open>The loop that sorts the entries of a tree into directories and files; both services
  have the same loop.\<close>

fun partition_tree :: "json list \<Rightarrow> json list \<Rightarrow> json list \<Rightarrow> exn + (json list \<times> json list)" where
  "partition_tree [] directories files = Inr (directories, files)"
| "partition_tree (item # items) directories files =
     and_then (py_subscript item ''type'') (\<lambda>t.
       if t = JStr ''tree'' then
         and_then (py_subscript item ''path'') (\<lambda>p.
           partition_tree items (directories @ [p]) files)
       else if t = JStr ''blob'' then
         and_then (py_subscript item ''path'') (\<lambda>p.
           partition_tree items directories (files @ [p]))
       else partition_tree items directories files)"

definition repo_structure :: "json \<Rightarrow> exn + json" where
  "repo_structure tree =
     and_then (py_iter tree) (\<lambda>items.
     and_then (partition_tree items [] []) (\<lambda>(directories, files).
       Inr (JObj [(''directories'', JArr directories), (''files'', JArr files)])))"

text \<open>An error answer that carries the provider's own body under \<^verbatim>\<open>details\<close>.\<close>

definition with_details :: "response \<Rightarrow> string \<Rightarrow> call list \<Rightarrow> outcome \<times> call list" where
  "with_details response message log =
     (case response_json response of
        Inl e \<Rightarrow> (Raise e, log)
      | Inr details \<Rightarrow>
          (Json (JObj [(''code'', JInt (status_code response)),
                       (''message'', JStr message),
                       (''details'', details)]) (status_code response), log))"

definition gh_get_repo_structure :: "environ \<Rightarrow> upstream \<Rightarrow> view" where
  "gh_get_repo_structure environ up req log =
     (let repo_full_name = args_get req ''repo_full_name'';
          branch_name0 = args_get req ''branch_name'';
          (b, log1) = gh_default_branch environ up repo_full_name branch_name0 log
      in case b of
           Inl out \<Rightarrow> (out, log1)
         | Inr branch_name \<Rightarrow>
             if \<not> truthy repo_full_name \<or> CHR ''/'' \<notin> set (py_str repo_full_name)
                \<or> length (py_split (py_str repo_full_name) CHR ''/'') \<noteq> 2 then
               (Json (JObj [(''code'', JInt 400),
                            (''message'', JStr ''Invalid or missing repo_full_name'')]) 400, log1)
             else
               (let commits_url = ''https://api.github.com/repos/'' @ py_str repo_full_name
                                    @ ''/commits/'' @ py_str branch_name;
                    headers = [(''Authorization'',
                                Some (''token '' @ py_str (os_environ_get environ ''GITHUB_TOKEN'')))];
                    (r, log2) = requests_get up commits_url headers log1
                in case r of
                     Inl e \<Rightarrow> (Raise e, log2)
                   | Inr commits_response \<Rightarrow>
                       if status_code commits_response \<noteq> 200 then
                         with_details commits_response ''Failed to get latest commit'' log2
                       else
                         (case and_then (response_json commits_response) (\<lambda>j. py_get j ''sha'') of
                            Inl e \<Rightarrow> (Raise e, log2)
                          | Inr latest_commit_sha \<Rightarrow>
                              if \<not> truthy latest_commit_sha then
                                (Json (JObj [(''code'', JInt 404),
                                             (''message'', JStr ''Latest commit SHA not found'')])
                                   404, log2)
                              else
                                (let trees_url = ''https://api.github.com/repos/''
                                                   @ py_str repo_full_name @ ''/git/trees/''
                                                   @ py_str latest_commit_sha @ ''?recursive=1'';
                                     (r3, log3) = requests_get up trees_url headers log2
                                 in case r3 of
                                      Inl e \<Rightarrow> (Raise e, log3)
                                    | Inr trees_response \<Rightarrow>
                                        if status_code trees_response \<noteq> 200 then
                                          with_details trees_response
                                            ''Failed to get repository tree'' log3
                                        else
                                          returning
                                            (and_then (response_json trees_response) (\<lambda>j.
                                             and_then (py_get_default j ''tree'' (JArr []))
                                               repo_structure))
                                            log3))))"

datatype gh_route = PrContent | FileContent | IssueInfo | SubmitPrComment | RepoStructure

text \<open>The route table: every view function is wrapped by \<^verbatim>\<open>require_api_key\<close>.\<close>

definition gh_app :: "string option \<Rightarrow> environ \<Rightarrow> upstream \<Rightarrow> gh_route \<Rightarrow> view" where
  "gh_app RHINO_API_KEY environ up route =
     require_api_key RHINO_API_KEY
       (case route of
          PrContent \<Rightarrow> gh_get_pr_content environ up
        | FileContent \<Rightarrow> gh_get_file_content environ up
        | IssueInfo \<Rightarrow> gh_get_issue_info environ up
        | SubmitPrComment \<Rightarrow> gh_submit_pr_comment environ up
        | RepoStructure \<Rightarrow> gh_get_repo_structure environ up)"

section \<open>The GitLab service\<close>

text \<open>\<open>GITLAB_DOMAIN\<close> is the second module global of this service, read at start with the
  default \<^verbatim>\<open>gitlab.com\<close>.\<close>

definition gitlab_domain :: "environ \<Rightarrow> string" where
  "gitlab_domain environ =
     (case environ ''GITLAB_DOMAIN'' of None \<Rightarrow> ''gitlab.com'' | Some d \<Rightarrow> d)"

definition gl_check_branch_exists ::
  "string \<Rightarrow> environ \<Rightarrow> upstream \<Rightarrow> json \<Rightarrow> json \<Rightarrow> call list \<Rightarrow> (exn + bool) \<times> call list" where
  "gl_check_branch_exists GITLAB_DOMAIN environ up project_id branch_name log =
     (case quote_plus project_id of
        Inl e \<Rightarrow> (Inl e, log)
      | Inr encoded_project_id \<Rightarrow>
          (let gitlab_api_url = ''https://'' @ GITLAB_DOMAIN @ ''/api/v4/projects/''
                                  @ encoded_project_id @ ''/repository/branches/''
                                  @ py_str branch_name;
               headers = [(''Private-Token'', environ ''GITLAB_PRIVATE_TOKEN'')];
               (r, log1) = requests_get up gitlab_api_url headers log
           in case r of
                Inl e \<Rightarrow> (Inl e, log1)
              | Inr response \<Rightarrow> (Inr (status_code response = 200), log1)))"

text \<open>The block \<^verbatim>\<open>if not branch_name: ...\<close> of \<^verbatim>\<open>get_file_content\<close> and
  \<^verbatim>\<open>get_repo_structure\<close>, as in the GitHub service.\<close>

definition gl_default_branch ::
  "string \<Rightarrow> environ \<Rightarrow> upstream \<Rightarrow> json \<Rightarrow> json \<Rightarrow> call list
     \<Rightarrow> (outcome + json) \<times> call list" where
  "gl_default_branch GITLAB_DOMAIN environ up project_id branch_name log =
     (if \<not> truthy branch_name then
        (let (r1, log1) =
               gl_check_branch_exists GITLAB_DOMAIN environ up project_id (JStr ''main'') log
         in case r1 of
              Inl e \<Rightarrow> (Inl (Raise e), log1)
            | Inr True \<Rightarrow> (Inr (JStr ''main''), log1)
            | Inr False \<Rightarrow>
                (let (r2, log2) =
                       gl_check_branch_exists GITLAB_DOMAIN environ up project_id
                         (JStr ''master'') log1
                 in case r2 of
                      Inl e \<Rightarrow> (Inl (Raise e), log2)
                    | Inr True \<Rightarrow> (Inr (JStr ''master''), log2)
                    | Inr False \<Rightarrow>
                        (Inl (Json (JObj [(''code'', JInt 404),
                                          (''message'', JStr ''No main or master branch found'')])
                                404), log2)))
      else (Inr branch_name, log))"

definition gl_mr_reshape :: "json \<Rightarrow> response \<Rightarrow> exn + json" where
  "gl_mr_reshape mr_content diffs_response =
     and_then (response_json diffs_response) (\<lambda>diffs_content.
     and_then (py_get_default diffs_content ''changes'' (JArr [])) (\<lambda>diffs.
     and_then (py_iter diffs) (\<lambda>changes.
     and_then (map_raising (\<lambda>change. py_get_default change ''diff'' (JStr [])) changes) (\<lambda>ds.
     and_then (py_join [CHR 0x0A] ds) (\<lambda>diff_text.
     and_then (py_get mr_content ''title'') (\<lambda>title.
     and_then (py_get mr_content ''description'') (\<lambda>description.
     and_then (py_get mr_content ''source_branch'') (\<lambda>source_branch.
     and_then (py_get mr_content ''target_branch'') (\<lambda>target_branch.
       Inr (JObj [(''title'', title),
                  (''description'', description),
                  (''source_branch'', source_branch),
                  (''target_branch'', target_branch),
                  (''diffs'', JStr diff_text)]))))))))))"

definition gl_get_mr_content :: "string \<Rightarrow> environ \<Rightarrow> upstream \<Rightarrow> view" where
  "gl_get_mr_content GITLAB_DOMAIN environ up req log =
     (let project_id = args_get req ''project_id'';
          mr_iid = args_get req ''mr_iid''
      in if \<not> truthy project_id \<or> \<not> truthy mr_iid then
           (Json (JObj [(''code'', JInt 400),
                        (''message'', JStr ''Missing project_id or mr_iid'')]) 400, log)
         else
           (case quote_plus project_id of
              Inl e \<Rightarrow> (Raise e, log)
            | Inr encoded_project_id \<Rightarrow>
                (let gitlab_api_url = ''https://'' @ GITLAB_DOMAIN @ ''/api/v4/projects/''
                                        @ encoded_project_id @ ''/merge_requests/''
                                        @ py_str mr_iid;
                     headers = [(''Private-Token'', environ ''GITLAB_PRIVATE_TOKEN'')];
                     (r, log1) = requests_get up gitlab_api_url headers log
                 in case r of
                      Inl e \<Rightarrow> (Raise e, log1)
                    | Inr response \<Rightarrow>
                        if status_code response \<noteq> 200 then
                          (Json (JObj [(''code'', JInt (status_code response)),
                                       (''message'', JStr ''Failed to fetch MR info'')])
                             (status_code response), log1)
                        else
                          (case response_json response of
                             Inl e \<Rightarrow> (Raise e, log1)
                           | Inr mr_content \<Rightarrow>
                          (case quote_plus project_id of
                             Inl e \<Rightarrow> (Raise e, log1)
                           | Inr encoded_project_id2 \<Rightarrow>
                               (let diffs_api_url =
                                      ''https://'' @ GITLAB_DOMAIN @ ''/api/v4/projects/''
                                        @ encoded_project_id2 @ ''/merge_requests/''
                                        @ py_str mr_iid @ ''/changes'';
                                    (r2, log2) = requests_get up diffs_api_url headers log1
                                in case r2 of
                                     Inl e \<Rightarrow> (Raise e, log2)
                                   | Inr diffs_response \<Rightarrow>
                                       if status_code diffs_response \<noteq> 200 then
                                         (Json (JObj [(''code'', JInt (status_code diffs_response)),
                                                      (''message'', JStr ''Failed to fetch MR diffs'')])
                                            (status_code diffs_response), log2)
                                       else
                                         returning (gl_mr_reshape mr_content diffs_response)
                                           log2))))))"

definition gl_get_file_content :: "string \<Rightarrow> environ \<Rightarrow> upstream \<Rightarrow> view" where
  "gl_get_file_content GITLAB_DOMAIN environ up req log =
     (let project_id = args_get req ''project_id'';
          file_path = args_get req ''file_path'';
          branch_name0 = args_get req ''branch_name''
      in if \<not> truthy project_id \<or> \<not> truthy file_path then
           (Json (JObj [(''code'', JInt 400),
                        (''message'', JStr ''Missing project_id or file_path'')]) 400, log)
         else
           (let (b, log1) = gl_default_branch GITLAB_DOMAIN environ up project_id branch_name0 log
            in case b of
                 Inl out \<Rightarrow> (out, log1)
               | Inr branch_name \<Rightarrow>
                   (case quote_plus file_path of
                      Inl e \<Rightarrow> (Raise e, log1)
                    | Inr file_path_encoded \<Rightarrow>
                   (case quote_plus project_id of
                      Inl e \<Rightarrow> (Raise e, log1)
                    | Inr encoded_project_id \<Rightarrow>
                        (let gitlab_api_url =
                               ''https://'' @ GITLAB_DOMAIN @ ''/api/v4/projects/''
                                 @ encoded_project_id @ ''/repository/files/''
                                 @ file_path_encoded @ ''/raw?ref='' @ py_str branch_name;
                             headers = [(''Private-Token'', environ ''GITLAB_PRIVATE_TOKEN'')];
                             (r, log2) = requests_get up gitlab_api_url headers log1
                         in case r of
                              Inl e \<Rightarrow> (Raise e, log2)
                            | Inr response \<Rightarrow>
                                if status_code response \<noteq> 200 then
                                  (Json (JObj [(''code'', JInt (status_code response)),
                                               (''message'', JStr ''Failed to fetch file content'')])
                                     (status_code response), log2)
                                else
                                  (Json (JObj [(''content'', JStr (resp_text response))]) 200,
                                   log2))))))"

definition gl_get_issue_info :: "string \<Rightarrow> environ \<Rightarrow> upstream \<Rightarrow> view" where
  "gl_get_issue_info GITLAB_DOMAIN environ up req log =
     (let project_id = args_get req ''project_id'';
          issue_iid = args_get req ''issue_iid''
      in if \<not> truthy project_id \<or> \<not> truthy issue_iid then
           (Json (JObj [(''code'', JInt 400),
                        (''message'', JStr ''Missing project_id or issue_iid'')]) 400, log)
         else
           (case quote_plus project_id of
              Inl e \<Rightarrow> (Raise e, log)
            | Inr encoded_project_id \<Rightarrow>
                (let gitlab_api_url = ''https://'' @ GITLAB_DOMAIN @ ''/api/v4/projects/''
                                        @ encoded_project_id @ ''/issues/'' @ py_str issue_iid;
                     headers = [(''Private-Token'', environ ''GITLAB_PRIVATE_TOKEN'')];
                     (r, log1) = requests_get up gitlab_api_url headers log
                 in case r of
                      Inl e \<Rightarrow> (Raise e, log1)
                    | Inr response \<Rightarrow>
                        if status_code response \<noteq> 200 then
                          (Json (JObj [(''code'', JInt (status_code response)),
                                       (''message'', JStr ''Failed to fetch issue info'')])
                             (status_code response), log1)
                        else
                          returning
                            (and_then (response_json response) (\<lambda>issue_info.
                             and_then (py_get issue_info ''title'') (\<lambda>title.
                             and_then (py_get issue_info ''description'') (\<lambda>description.
                               Inr (JObj [(''title'', title), (''description'', description)])))))
                            log1)))"

definition gl_submit_mr_comment :: "string \<Rightarrow> environ \<Rightarrow> upstream \<Rightarrow> view" where
  "gl_submit_mr_comment GITLAB_DOMAIN environ up req log =
     (let token = os_environ_get environ ''GITLAB_PRIVATE_TOKEN''
      in if \<not> truthy token then
           (Json (JObj [(''code'', JInt 401),
                        (''message'', JStr ''GitLab access token is not set'')]) 401, log)
         else
           (case json_get req ''project_id'' of
              Inl out \<Rightarrow> (out, log)
            | Inr project_id \<Rightarrow>
           (case json_get req ''mr_iid'' of
              Inl out \<Rightarrow> (out, log)
            | Inr mr_iid \<Rightarrow>
           (case json_get req ''comment_body'' of
              Inl out \<Rightarrow> (out, log)
            | Inr comment_body \<Rightarrow>
                if \<not> truthy project_id \<or> \<not> truthy mr_iid \<or> \<not> truthy comment_body then
                  (Json (JObj [(''code'', JInt 400),
                               (''message'', JStr ''Missing required parameters'')]) 400, log)
                else
                  (case quote_plus project_id of
                     Inl e \<Rightarrow> (Raise e, log)
                   | Inr encoded_project_id \<Rightarrow>
                       (let comment_url = ''https://'' @ GITLAB_DOMAIN @ ''/api/v4/projects/''
                                            @ encoded_project_id @ ''/merge_requests/''
                                            @ py_str mr_iid @ ''/notes'';
                            headers = [(''Private-Token'', Some (py_str token)),
                                       (''Content-Type'', Some ''application/json'')];
                            data = JObj [(''body'', comment_body)];
                            (r, log1) = requests_post up comment_url headers data log
                        in case r of
                             Inl e \<Rightarrow> (Raise e, log1)
                           | Inr response \<Rightarrow>
                               if status_code response \<noteq> 201 then
                                 (Json (JObj [(''code'', JInt (status_code response)),
                                              (''message'', JStr ''Failed to create comment'')])
                                    (status_code response), log1)
                               else
                                 (Json (JObj [(''message'', JStr ''Comment created successfully'')])
                                    201, log1)))))))"

definition gl_get_repo_structure :: "string \<Rightarrow> environ \<Rightarrow> upstream \<Rightarrow> view" where
  "gl_get_repo_structure GITLAB_DOMAIN environ up req log =
     (let project_id = args_get req ''project_id'';
          branch_name0 = args_get req ''branch_name''
      in if \<not> truthy project_id then
           (Json (JObj [(''code'', JInt 400), (''message'', JStr ''Missing project_id'')]) 400, log)
         else
           (let (b, log1) = gl_default_branch GITLAB_DOMAIN environ up project_id branch_name0 log
            in case b of
                 Inl out \<Rightarrow> (out, log1)
               | Inr branch_name \<Rightarrow>
                   (case quote_plus project_id of
                      Inl e \<Rightarrow> (Raise e, log1)
                    | Inr encoded_project_id \<Rightarrow>
                        (let gitlab_api_url =
                               ''https://'' @ GITLAB_DOMAIN @ ''/api/v4/projects/''
                                 @ encoded_project_id @ ''/repository/tree?ref=''
                                 @ py_str branch_name @ ''&recursive=true'';
                             headers = [(''Private-Token'', environ ''GITLAB_PRIVATE_TOKEN'')];
                             (r, log2) = requests_get up gitlab_api_url headers log1
                         in case r of
                              Inl e \<Rightarrow> (Raise e, log2)
                            | Inr response \<Rightarrow>
                                if status_code response \<noteq> 200 then
                                  (Json (JObj [(''code'', JInt (status_code response)),
                                               (''message'',
                                                JStr ''Failed to get repository structure'')])
                                     (status_code response), log2)
                                else
                                  returning
                                    (and_then (response_json response) repo_structure) log2))))"

datatype gl_route = MrContent | GlFileContent | GlIssueInfo | SubmitMrComment | GlRepoStructure

definition gl_app :: "string option \<Rightarrow> string \<Rightarrow> environ \<Rightarrow> upstream \<Rightarrow> gl_route \<Rightarrow> view" where
  "gl_app RHINO_API_KEY GITLAB_DOMAIN environ up route =
     require_api_key RHINO_API_KEY
       (case route of
          MrContent \<Rightarrow> gl_get_mr_content GITLAB_DOMAIN environ up
        | GlFileContent \<Rightarrow> gl_get_file_content GITLAB_DOMAIN environ up
        | GlIssueInfo \<Rightarrow> gl_get_issue_info GITLAB_DOMAIN environ up
        | SubmitMrComment \<Rightarrow> gl_submit_mr_comment GITLAB_DOMAIN environ up
        | GlRepoStructure \<Rightarrow> gl_get_repo_structure GITLAB_DOMAIN environ up)"

section \<open>The two services as started\<close>

text \<open>The module globals are read from the environment the process starts in; the
  handlers read the tokens from the environment at the time of the request.\<close>

definition gh_service :: "environ \<Rightarrow> environ \<Rightarrow> upstream \<Rightarrow> gh_route \<Rightarrow> view" where
  "gh_service startup environ = gh_app (startup ''RHINO_API_KEY'') environ"

definition gl_service :: "environ \<Rightarrow> environ \<Rightarrow> upstream \<Rightarrow> gl_route \<Rightarrow> view" where
  "gl_service startup environ =
     gl_app (startup ''RHINO_API_KEY'') (gitlab_domain startup) environ"

section \<open>Example requests and providers\<close>

definition mk_request :: "string option \<Rightarrow> (string \<times> string) list \<Rightarrow> int + json \<Rightarrow> request" where
  "mk_request key args body =
     \<lparr>req_headers = (case key of None \<Rightarrow> Map.empty | Some k \<Rightarrow> [''X-Api-Key'' \<mapsto> k]),
      req_args = map_of args,
      req_json = body\<rparr>"

definition answer :: "int \<Rightarrow> string \<Rightarrow> json option \<Rightarrow> response" where
  "answer status body j = \<lparr>status_code = status, resp_text = body, resp_json = j\<rparr>"

text \<open>A provider that gives its answers in the order listed, whatever it is asked, and
  refuses the connection after the last.\<close>

definition scripted :: "response list \<Rightarrow> upstream" where
  "scripted rs log c = (if length log < length rs then Inr (rs ! length log) else Inl RequestException)"

definition tokens :: environ where
  "tokens = [''GITHUB_TOKEN'' \<mapsto> ''ghp_x'', ''GITLAB_PRIVATE_TOKEN'' \<mapsto> ''glpat-x'']"

section \<open>Tree entries\<close>

text \<open>An entry of a provider's tree listing is a JSON object with a \<^verbatim>\<open>type\<close> and a
  \<^verbatim>\<open>path\<close>. \<open>paths_of_type t\<close> selects, in order, the paths of the entries of type
  \<open>t\<close>.\<close>

definition entry_type :: "json \<Rightarrow> json option" where
  "entry_type item = (case item of JObj kvs \<Rightarrow> map_of kvs ''type'' | _ \<Rightarrow> None)"

definition entry_path :: "json \<Rightarrow> json option" where
  "entry_path item = (case item of JObj kvs \<Rightarrow> map_of kvs ''path'' | _ \<Rightarrow> None)"

definition is_entry :: "json \<Rightarrow> bool" where
  "is_entry item = (entry_type item \<noteq> None \<and> entry_path item \<noteq> None)"

definition paths_of_type :: "string \<Rightarrow> json list \<Rightarrow> json list" where
  "paths_of_type t items =
     List.map_filter (\<lambda>item. if entry_type item = Some (JStr t) then entry_path item else None)
       items"

section \<open>The calls the handlers send\<close>

text \<open>Names for the upstream calls, to state what a handler sent and what the provider
  answered.\<close>

definition gh_headers :: "environ \<Rightarrow> (string \<times> string option) list" where
  "gh_headers environ =
     [(''Authorization'', Some (''token '' @ py_str (os_environ_get environ ''GITHUB_TOKEN'')))]"

definition gh_probe :: "environ \<Rightarrow> json \<Rightarrow> string \<Rightarrow> call" where
  "gh_probe environ repo_full_name branch =
     get_call (''https://api.github.com/repos/'' @ py_str repo_full_name @ ''/branches/'' @ branch)
       (gh_headers environ)"

definition gh_contents_call :: "environ \<Rightarrow> string \<Rightarrow> string \<Rightarrow> json \<Rightarrow> call" where
  "gh_contents_call environ repo file_path branch_name =
     get_call (''https://api.github.com/repos/'' @ repo @ ''/contents/'' @ file_path
                 @ ''?ref='' @ py_str branch_name) (gh_headers environ)"

definition gh_commits_call :: "environ \<Rightarrow> string \<Rightarrow> json \<Rightarrow> call" where
  "gh_commits_call environ repo branch_name =
     get_call (''https://api.github.com/repos/'' @ repo @ ''/commits/'' @ py_str branch_name)
       (gh_headers environ)"

definition gh_trees_call :: "environ \<Rightarrow> string \<Rightarrow> json \<Rightarrow> call" where
  "gh_trees_call environ repo sha =
     get_call (''https://api.github.com/repos/'' @ repo @ ''/git/trees/'' @ py_str sha
                 @ ''?recursive=1'') (gh_headers environ)"

definition gl_headers :: "environ \<Rightarrow> (string \<times> string option) list" where
  "gl_headers environ = [(''Private-Token'', environ ''GITLAB_PRIVATE_TOKEN'')]"

definition gl_probe :: "string \<Rightarrow> environ \<Rightarrow> string \<Rightarrow> string \<Rightarrow> call" where
  "gl_probe GITLAB_DOMAIN environ project branch =
     get_call (''https://'' @ GITLAB_DOMAIN @ ''/api/v4/projects/''
                 @ concat (map quote_byte project) @ ''/repository/branches/'' @ branch)
       (gl_headers environ)"

definition gl_file_call :: "string \<Rightarrow> environ \<Rightarrow> string \<Rightarrow> string \<Rightarrow> json \<Rightarrow> call" where
  "gl_file_call GITLAB_DOMAIN environ project file_path branch_name =
     get_call (''https://'' @ GITLAB_DOMAIN @ ''/api/v4/projects/''
                 @ concat (map quote_byte project) @ ''/repository/files/''
                 @ concat (map quote_byte file_path) @ ''/raw?ref='' @ py_str branch_name)
       (gl_headers environ)"

definition gl_tree_call :: "string \<Rightarrow> environ \<Rightarrow> string \<Rightarrow> json \<Rightarrow> call" where
  "gl_tree_call GITLAB_DOMAIN environ project branch_name =
     get_call (''https://'' @ GITLAB_DOMAIN @ ''/api/v4/projects/''
                 @ concat (map quote_byte project) @ ''/repository/tree?ref=''
                 @ py_str branch_name @ ''&recursive=true'')
       (gl_headers environ)"

text \<open>An inbound request that carries the configured, non-empty shared secret.\<close>

definition authorized :: "string option \<Rightarrow> request \<Rightarrow> bool" where
  "authorized RHINO_API_KEY req =
     (case req_headers req ''X-Api-Key'' of
        None \<Rightarrow> False
      | Some k \<Rightarrow> k \<noteq> [] \<and> RHINO_API_KEY = Some k)"

definition mixed_tree :: "json list" where
  "mixed_tree =
     [JObj [(''path'', JStr ''src''), (''type'', JStr ''tree'')],
      JObj [(''path'', JStr ''src/a.py''), (''type'', JStr ''blob'')],
      JObj [(''path'', JStr ''vendor/lib''), (''type'', JStr ''commit'')],
      JObj [(''path'', JStr ''docs''), (''type'', JStr ''tree'')],
      JObj [(''path'', JStr ''README.md''), (''type'', JStr ''blob'')]]"

definition gh_tree_request :: request where
  "gh_tree_request =
     mk_request (Some ''secret'') [(''repo_full_name'', ''acme/widgets''), (''branch_name'', ''dev'')]
       (Inl 415)"

definition gh_tree_provider :: upstream where
  "gh_tree_provider =
     scripted [answer 200 [] (Some (JObj [(''sha'', JStr ''abc123'')])),
               answer 200 [] (Some (JObj [(''sha'', JStr ''abc123''), (''tree'', JArr mixed_tree)]))]"

definition gl_tree_request :: request where
  "gl_tree_request =
     mk_request (Some ''secret'') [(''project_id'', ''acme/widgets''), (''branch_name'', ''dev'')]
       (Inl 415)"

definition gl_tree_provider :: upstream where
  "gl_tree_provider = scripted [answer 200 [] (Some (JArr mixed_tree))]"

definition submodule_entry :: json where
  "submodule_entry = JObj [(''path'', JStr ''vendor/lib''), (''type'', JStr ''commit'')]"

definition tree_before :: "json list" where
  "tree_before =
     [JObj [(''path'', JStr ''src''), (''type'', JStr ''tree'')],
      JObj [(''path'', JStr ''src/a.py''), (''type'', JStr ''blob'')]]"

definition tree_after :: "json list" where
  "tree_after =
     [JObj [(''path'', JStr ''docs''), (''type'', JStr ''tree'')],
      JObj [(''path'', JStr ''README.md''), (''type'', JStr ''blob'')]]"

definition wrong_key_request :: request where
  "wrong_key_request =
     mk_request (Some ''wrong'') [(''repo_full_name'', ''acme/widgets''), (''issue_number'', ''7'')]
       (Inl 415)"

definition no_key_request :: request where
  "no_key_request =
     mk_request None [(''project_id'', ''42''), (''issue_iid'', ''7'')] (Inl 415)"

definition empty_key_request :: request where
  "empty_key_request =
     mk_request (Some []) [(''repo_full_name'', ''acme/widgets''), (''issue_number'', ''7'')]
       (Inl 415)"

definition issue_provider :: upstream where
  "issue_provider =
     scripted [answer 200 [] (Some (JObj [(''title'', JStr ''Crash''), (''body'', JStr ''It fails'')]))]"

definition no_branch_found :: outcome where
  "no_branch_found =
     Json (JObj [(''code'', JInt 404), (''message'', JStr ''No main or master branch found'')]) 404"

definition gh_file_request :: request where
  "gh_file_request =
     mk_request (Some ''secret'') [(''repo_full_name'', ''acme/widgets''), (''file_path'', ''README.md'')]
       (Inl 415)"

definition gl_file_request :: request where
  "gl_file_request =
     mk_request (Some ''secret'') [(''project_id'', ''acme/widgets''), (''file_path'', ''README.md'')]
       (Inl 415)"

definition hello_content :: response where
  "hello_content = answer 200 ''hello'' (Some (JObj [(''content'', JStr ''aGVsbG8='')]))"

definition not_found :: response where
  "not_found = answer 404 [] (Some (JObj [(''message'', JStr ''Not Found'')]))"

definition found :: response where
  "found = answer 200 [] (Some (JObj [(''name'', JStr ''master'')]))"

definition comment_created :: outcome where
  "comment_created = Json (JObj [(''message'', JStr ''Comment created successfully'')]) 201"

definition comment_failed :: "int \<Rightarrow> outcome" where
  "comment_failed status =
     Json (JObj [(''code'', JInt status), (''message'', JStr ''Failed to create comment'')]) status"

definition gh_comment_request :: request where
  "gh_comment_request =
     mk_request (Some ''secret'') []
       (Inr (JObj [(''repo_full_name'', JStr ''acme/widgets''), (''pr_number'', JInt 7),
                   (''comment_body'', JStr ''LGTM'')]))"

definition gl_comment_request :: request where
  "gl_comment_request =
     mk_request (Some ''secret'') []
       (Inr (JObj [(''project_id'', JStr ''acme/widgets''), (''mr_iid'', JInt 3),
                   (''comment_body'', JStr ''LGTM'')]))"

definition created :: response where
  "created = answer 201 [] (Some (JObj [(''id'', JInt 1)]))"

definition plain_ok :: response where
  "plain_ok = answer 200 [] (Some (JObj []))"

definition gh_comment_post :: call where
  "gh_comment_post =
     post_call ''https://api.github.com/repos/acme/widgets/issues/7/comments''
       [(''Authorization'', Some ''token ghp_x''), (''Accept'', Some ''application/vnd.github.v3+json'')]
       (JObj [(''body'', JStr ''LGTM'')])"

definition gl_comment_post :: call where
  "gl_comment_post =
     post_call ''https://gitlab.com/api/v4/projects/acme%2Fwidgets/merge_requests/3/notes''
       [(''Private-Token'', Some ''glpat-x''), (''Content-Type'', Some ''application/json'')]
       (JObj [(''body'', JStr ''LGTM'')])"

definition binary_content :: response where
  "binary_content = answer 200 [] (Some (JObj [(''content'', JStr ''/w=='')]))"

definition issue_request :: request where
  "issue_request =
     mk_request (Some ''secret'') [(''repo_full_name'', ''acme/widgets''), (''issue_number'', ''7'')]
       (Inl 415)"

definition token_not_set :: "string \<Rightarrow> outcome" where
  "token_not_set provider =
     Json (JObj [(''code'', JInt 401),
                 (''message'', JStr (provider @ '' access token is not set''))]) 401"

definition missing_path_request :: request where
  "missing_path_request =
     mk_request (Some ''secret'') [(''repo_full_name'', ''acme/widgets'')] (Inl 415)"

definition no_args_request :: request where
  "no_args_request = mk_request (Some ''secret'') [] (Inl 415)"

definition gl_missing_path_request :: request where
  "gl_missing_path_request =
     mk_request (Some ''secret'') [(''project_id'', ''acme/widgets'')] (Inl 415)"

definition missing :: "string \<Rightarrow> outcome" where
  "missing what = Json (JObj [(''code'', JInt 400), (''message'', JStr what)]) 400"

definition binary_file_request :: request where
  "binary_file_request =
     mk_request (Some ''secret'')
       [(''repo_full_name'', ''acme/widgets''), (''file_path'', ''logo.png''), (''branch_name'', ''dev'')]
       (Inl 415)"

text \<open>An error object as every handler but one builds it: a JSON object with the keys
  \<^verbatim>\<open>code\<close> and \<^verbatim>\<open>message\<close>.\<close>

definition has_code_and_message :: "json \<Rightarrow> bool" where
  "has_code_and_message body =
     (case body of
        JObj kvs \<Rightarrow> map_of kvs ''code'' \<noteq> None \<and> map_of kvs ''message'' \<noteq> None
      | _ \<Rightarrow> False)"

definition has_keys :: "string list \<Rightarrow> json \<Rightarrow> bool" where
  "has_keys ks body = (case body of JObj kvs \<Rightarrow> map fst kvs = ks | _ \<Rightarrow> False)"

text \<open>The success shapes of the endpoints, by their keys.\<close>

fun gh_success_keys :: "gh_route \<Rightarrow> string list" where
  "gh_success_keys PrContent =
     [''title'', ''body'', ''source_branch'', ''source_repo'', ''code_changes'']"
| "gh_success_keys FileContent = [''content'']"
| "gh_success_keys IssueInfo = [''title'', ''description'']"
| "gh_success_keys SubmitPrComment = [''message'']"
| "gh_success_keys RepoStructure = [''directories'', ''files'']"

fun gl_success_keys :: "gl_route \<Rightarrow> string list" where
  "gl_success_keys MrContent =
     [''title'', ''description'', ''source_branch'', ''target_branch'', ''diffs'']"
| "gl_success_keys GlFileContent = [''content'']"
| "gl_success_keys GlIssueInfo = [''title'', ''description'']"
| "gl_success_keys SubmitMrComment = [''message'']"
| "gl_success_keys GlRepoStructure = [''directories'', ''files'']"

text \<open>The POST that creates the comment, for the parameters of the request body and the
  token of the environment.\<close>

definition gh_comment_call :: "string \<Rightarrow> json \<Rightarrow> json \<Rightarrow> json \<Rightarrow> call" where
  "gh_comment_call token repo_full_name pr_number comment_body =
     post_call (''https://api.github.com/repos/'' @ py_str repo_full_name @ ''/issues/''
                  @ py_str pr_number @ ''/comments'')
       [(''Authorization'', Some (''token '' @ token)),
        (''Accept'', Some ''application/vnd.github.v3+json'')]
       (JObj [(''body'', comment_body)])"

definition gl_comment_call :: "string \<Rightarrow> string \<Rightarrow> string \<Rightarrow> json \<Rightarrow> json \<Rightarrow> call" where
  "gl_comment_call GITLAB_DOMAIN token project mr_iid comment_body =
     post_call (''https://'' @ GITLAB_DOMAIN @ ''/api/v4/projects/''
                  @ concat (map quote_byte project) @ ''/merge_requests/'' @ py_str mr_iid
                  @ ''/notes'')
       [(''Private-Token'', Some token), (''Content-Type'', Some ''application/json'')]
       (JObj [(''body'', comment_body)])"

definition gl_issue_request :: request where
  "gl_issue_request =
     mk_request (Some ''secret'') [(''project_id'', ''42''), (''issue_iid'', ''7'')] (Inl 415)"

section \<open>Auxiliary facts\<close>

lemma and_then_Inr [simp]: "and_then (Inr v) k = k v"
  by (simp add: and_then_def)

lemma and_then_Inl [simp]: "and_then (Inl e) k = Inl e"
  by (simp add: and_then_def)

lemma paths_of_type_Cons:
  "paths_of_type t (item # items) =
     (if entry_type item = Some (JStr t)
      then (case entry_path item of None \<Rightarrow> paths_of_type t items
            | Some p \<Rightarrow> p # paths_of_type t items)
      else paths_of_type t items)"
  by (simp add: paths_of_type_def List.map_filter_simps split: option.splits)

lemma paths_of_type_Nil [simp]: "paths_of_type t [] = []"
  by (simp add: paths_of_type_def List.map_filter_simps)

lemma partition_tree_entries:
  "\<forall>item \<in> set items. is_entry item \<Longrightarrow>
   partition_tree items ds fs =
     Inr (ds @ paths_of_type ''tree'' items, fs @ paths_of_type ''blob'' items)"
proof (induction items arbitrary: ds fs)
  case Nil
  then show ?case by simp
next
  case (Cons item items)
  from Cons.prems obtain kvs t p
    where item: "item = JObj kvs" "map_of kvs ''type'' = Some t" "map_of kvs ''path'' = Some p"
    by (auto simp: is_entry_def entry_type_def entry_path_def split: json.splits)
  from Cons.prems have rest: "\<forall>i \<in> set items. is_entry i" by simp
  show ?case
    using item Cons.IH [OF rest]
    by (simp add: py_subscript_def paths_of_type_Cons entry_type_def entry_path_def)
qed

lemma repo_structure_entries:
  "\<forall>item \<in> set items. is_entry item \<Longrightarrow>
   repo_structure (JArr items) =
     Inr (JObj [(''directories'', JArr (paths_of_type ''tree'' items)),
                (''files'', JArr (paths_of_type ''blob'' items))])"
  by (simp add: repo_structure_def py_iter_def partition_tree_entries)

lemma partition_tree_skip:
  "py_subscript item ''type'' = Inr t \<Longrightarrow> t \<noteq> JStr ''tree'' \<Longrightarrow> t \<noteq> JStr ''blob'' \<Longrightarrow>
   partition_tree (xs @ item # ys) ds fs = partition_tree (xs @ ys) ds fs"
proof (induction xs arbitrary: ds fs)
  case Nil
  then show ?case by simp
next
  case (Cons x xs)
  show ?case
    using Cons.IH [OF Cons.prems]
    by (cases "py_subscript x ''type''"; cases "py_subscript x ''path''") (simp_all)
qed

lemma authorized_runs_view:
  "authorized RHINO_API_KEY req \<Longrightarrow>
   require_api_key RHINO_API_KEY view_function req log = view_function req log"
  by (auto simp: authorized_def require_api_key_def str_or_none_def split: option.splits)

lemma repo_structure_skip:
  "py_subscript item ''type'' = Inr t \<Longrightarrow> t \<noteq> JStr ''tree'' \<Longrightarrow> t \<noteq> JStr ''blob'' \<Longrightarrow>
   repo_structure (JArr (xs @ item # ys)) = repo_structure (JArr (xs @ ys))"
  by (simp add: repo_structure_def py_iter_def partition_tree_skip)

lemma gh_repo_structure_reaches_tree:
  assumes auth: "authorized RHINO_API_KEY req"
    and repo: "req_args req ''repo_full_name'' = Some repo" "CHR ''/'' \<in> set repo"
      "length (py_split repo CHR ''/'') = 2"
    and branch: "gh_default_branch environ up (JStr repo) (args_get req ''branch_name'') log
                   = (Inr branch_name, log1)"
    and commits: "up log1 (gh_commits_call environ repo branch_name) = Inr commits_response"
      "status_code commits_response = 200"
      "resp_json commits_response = Some commit"
      "py_get commit ''sha'' = Inr sha" "truthy sha"
    and trees: "up (log1 @ [gh_commits_call environ repo branch_name])
                   (gh_trees_call environ repo sha) = Inr trees_response"
      "status_code trees_response = 200"
      "resp_json trees_response = Some tree_json"
      "py_get_default tree_json ''tree'' (JArr []) = Inr tree"
  shows "gh_app RHINO_API_KEY environ up RepoStructure req log =
           returning (repo_structure tree)
             (log1 @ [gh_commits_call environ repo branch_name, gh_trees_call environ repo sha])"
proof -
  have nonempty: "repo \<noteq> []" using repo(2) by auto
  have arg: "args_get req ''repo_full_name'' = JStr repo"
    by (simp add: args_get_def str_or_none_def repo)
  show ?thesis
    using repo(2,3) branch commits trees nonempty
    by (simp add: gh_app_def authorized_runs_view [OF auth] gh_get_repo_structure_def arg
        requests_get_def response_json_def Let_def gh_commits_call_def gh_trees_call_def
        gh_headers_def)
qed

lemma gl_repo_structure_reaches_tree:
  assumes auth: "authorized RHINO_API_KEY req"
    and project: "req_args req ''project_id'' = Some project" "project \<noteq> []"
    and branch: "gl_default_branch GITLAB_DOMAIN environ up (JStr project)
                   (args_get req ''branch_name'') log = (Inr branch_name, log1)"
    and tree: "up log1 (gl_tree_call GITLAB_DOMAIN environ project branch_name) = Inr response"
      "status_code response = 200"
      "resp_json response = Some tree"
  shows "gl_app RHINO_API_KEY GITLAB_DOMAIN environ up GlRepoStructure req log =
           returning (repo_structure tree)
             (log1 @ [gl_tree_call GITLAB_DOMAIN environ project branch_name])"
proof -
  have arg: "args_get req ''project_id'' = JStr project"
    by (simp add: args_get_def str_or_none_def project)
  show ?thesis
    using project(2) branch tree
    by (simp add: gl_app_def authorized_runs_view [OF auth] gl_get_repo_structure_def arg
        requests_get_def response_json_def quote_plus_def Let_def gl_tree_call_def
        gl_headers_def)
qed

section \<open>The auth gate rejects\<close>

text \<open>
  Claim C2. On every route of both services, a request that has no \<^verbatim>\<open>X-Api-Key\<close> header, or
  whose header differs from the configured shared secret, is answered with 401 by the
  decorator: the view function is not run and no upstream call is made.
\<close>

theorem auth_gate_rejects:
  assumes "req_headers req ''X-Api-Key'' = None
           \<or> req_headers req ''X-Api-Key'' \<noteq> RHINO_API_KEY"
  shows "require_api_key RHINO_API_KEY view_function req log = (Abort 401, log)
       \<and> gh_app RHINO_API_KEY environ up gh_route req log = (Abort 401, log)
       \<and> gl_app RHINO_API_KEY GITLAB_DOMAIN environ up gl_route req log = (Abort 401, log)"
  using assms by (auto simp: require_api_key_def gh_app_def gl_app_def str_or_none_def)

theorem auth_gate_rejects_witness:
  "req_headers wrong_key_request ''X-Api-Key'' = Some ''wrong''
   \<and> gh_app (Some ''secret'') tokens issue_provider IssueInfo wrong_key_request [] = (Abort 401, [])
   \<and> req_headers no_key_request ''X-Api-Key'' = None
   \<and> gl_app (Some ''secret'') ''gitlab.com'' tokens issue_provider GlIssueInfo no_key_request []
       = (Abort 401, [])"
proof -
  have wrong: "req_headers wrong_key_request ''X-Api-Key'' = Some ''wrong''"
    by (simp add: wrong_key_request_def mk_request_def)
  have missing: "req_headers no_key_request ''X-Api-Key'' = None"
    by (simp add: no_key_request_def mk_request_def)
  have "gh_app (Some ''secret'') tokens issue_provider IssueInfo wrong_key_request []
          = (Abort 401, [])"
    using auth_gate_rejects [where req = wrong_key_request and RHINO_API_KEY = "Some ''secret''"]
    by (simp add: wrong)
  moreover have "gl_app (Some ''secret'') ''gitlab.com'' tokens issue_provider GlIssueInfo
                   no_key_request [] = (Abort 401, [])"
    using auth_gate_rejects [where req = no_key_request and RHINO_API_KEY = "Some ''secret''"]
    by (simp add: missing)
  ultimately show ?thesis
    using wrong missing by simp
qed

text \<open>
  Claim C9. When the shared secret is unset or empty in the environment the service
  starts in, every request on every route is answered with 401, also one whose header is
  the empty string: no request reaches a view function.
\<close>

theorem unset_secret_rejects_all:
  assumes "startup ''RHINO_API_KEY'' = None \<or> startup ''RHINO_API_KEY'' = Some []"
  shows "gh_service startup environ up gh_route req log = (Abort 401, log)
       \<and> gl_service startup environ up gl_route req log = (Abort 401, log)"
  using assms
  by (auto simp: gh_service_def gl_service_def require_api_key_def gh_app_def gl_app_def
      str_or_none_def split: option.splits)

theorem unset_secret_rejects_all_witness:
  "req_headers empty_key_request ''X-Api-Key'' = Some []
   \<and> gh_service [''RHINO_API_KEY'' \<mapsto> []] tokens issue_provider IssueInfo empty_key_request []
       = (Abort 401, [])
   \<and> gl_service Map.empty tokens issue_provider GlIssueInfo no_key_request [] = (Abort 401, [])"
proof -
  have "gh_service [''RHINO_API_KEY'' \<mapsto> []] tokens issue_provider IssueInfo
          empty_key_request [] = (Abort 401, [])"
    using unset_secret_rejects_all [where startup = "[''RHINO_API_KEY'' \<mapsto> []]"]
    by simp
  moreover have "gl_service Map.empty tokens issue_provider GlIssueInfo no_key_request []
                   = (Abort 401, [])"
    using unset_secret_rejects_all [where startup = Map.empty]
    by simp
  ultimately show ?thesis
    by (simp add: empty_key_request_def mk_request_def)
qed

section \<open>Repository structure\<close>

text \<open>
  Claim C7. When the provider answers the tree request with a list of entries, the answer
  of \<^verbatim>\<open>repo_structure\<close> lists under \<^verbatim>\<open>directories\<close> the paths of the entries of type
  \<^verbatim>\<open>tree\<close> and under \<^verbatim>\<open>files\<close> the paths of the entries of type \<^verbatim>\<open>blob\<close>, each list in
  the order of the provider's answer. This holds of the loop, of the GitHub handler (which
  reads the list from the field \<^verbatim>\<open>tree\<close> of the second answer) and of the GitLab handler.
\<close>

theorem repo_structure_partition:
  assumes entries: "\<forall>item \<in> set items. is_entry item"
  shows "repo_structure (JArr items) =
           Inr (JObj [(''directories'', JArr (paths_of_type ''tree'' items)),
                      (''files'', JArr (paths_of_type ''blob'' items))])
    \<and> (authorized RHINO_API_KEY req
        \<and> req_args req ''repo_full_name'' = Some repo \<and> CHR ''/'' \<in> set repo
        \<and> length (py_split repo CHR ''/'') = 2
        \<and> gh_default_branch environ up (JStr repo) (args_get req ''branch_name'') log
            = (Inr branch_name, log_b)
        \<and> up log_b (gh_commits_call environ repo branch_name) = Inr commits_response
        \<and> status_code commits_response = 200
        \<and> resp_json commits_response = Some commit
        \<and> py_get commit ''sha'' = Inr sha \<and> truthy sha
        \<and> up (log_b @ [gh_commits_call environ repo branch_name]) (gh_trees_call environ repo sha)
            = Inr trees_response
        \<and> status_code trees_response = 200
        \<and> resp_json trees_response = Some tree_json
        \<and> py_get_default tree_json ''tree'' (JArr []) = Inr (JArr items)
       \<longrightarrow> gh_app RHINO_API_KEY environ up RepoStructure req log =
             (Json (JObj [(''directories'', JArr (paths_of_type ''tree'' items)),
                          (''files'', JArr (paths_of_type ''blob'' items))]) 200,
              log_b @ [gh_commits_call environ repo branch_name, gh_trees_call environ repo sha]))
    \<and> (authorized RHINO_API_KEY gl_req
        \<and> req_args gl_req ''project_id'' = Some project \<and> project \<noteq> []
        \<and> gl_default_branch GITLAB_DOMAIN environ gl_up (JStr project)
             (args_get gl_req ''branch_name'') log = (Inr gl_branch_name, gl_log_b)
        \<and> gl_up gl_log_b (gl_tree_call GITLAB_DOMAIN environ project gl_branch_name) = Inr response
        \<and> status_code response = 200
        \<and> resp_json response = Some (JArr items)
       \<longrightarrow> gl_app RHINO_API_KEY GITLAB_DOMAIN environ gl_up GlRepoStructure gl_req log =
             (Json (JObj [(''directories'', JArr (paths_of_type ''tree'' items)),
                          (''files'', JArr (paths_of_type ''blob'' items))]) 200,
              gl_log_b @ [gl_tree_call GITLAB_DOMAIN environ project gl_branch_name]))"
proof (intro conjI impI)
  show "repo_structure (JArr items) =
          Inr (JObj [(''directories'', JArr (paths_of_type ''tree'' items)),
                     (''files'', JArr (paths_of_type ''blob'' items))])"
    by (rule repo_structure_entries [OF entries])
next
  assume "authorized RHINO_API_KEY req
        \<and> req_args req ''repo_full_name'' = Some repo \<and> CHR ''/'' \<in> set repo
        \<and> length (py_split repo CHR ''/'') = 2
        \<and> gh_default_branch environ up (JStr repo) (args_get req ''branch_name'') log
            = (Inr branch_name, log_b)
        \<and> up log_b (gh_commits_call environ repo branch_name) = Inr commits_response
        \<and> status_code commits_response = 200
        \<and> resp_json commits_response = Some commit
        \<and> py_get commit ''sha'' = Inr sha \<and> truthy sha
        \<and> up (log_b @ [gh_commits_call environ repo branch_name]) (gh_trees_call environ repo sha)
            = Inr trees_response
        \<and> status_code trees_response = 200
        \<and> resp_json trees_response = Some tree_json
        \<and> py_get_default tree_json ''tree'' (JArr []) = Inr (JArr items)"
  then show "gh_app RHINO_API_KEY environ up RepoStructure req log =
             (Json (JObj [(''directories'', JArr (paths_of_type ''tree'' items)),
                          (''files'', JArr (paths_of_type ''blob'' items))]) 200,
              log_b @ [gh_commits_call environ repo branch_name, gh_trees_call environ repo sha])"
    by (elim conjE)
      (simp add: gh_repo_structure_reaches_tree repo_structure_entries [OF entries] returning_def)
next
  assume "authorized RHINO_API_KEY gl_req
        \<and> req_args gl_req ''project_id'' = Some project \<and> project \<noteq> []
        \<and> gl_default_branch GITLAB_DOMAIN environ gl_up (JStr project)
             (args_get gl_req ''branch_name'') log = (Inr gl_branch_name, gl_log_b)
        \<and> gl_up gl_log_b (gl_tree_call GITLAB_DOMAIN environ project gl_branch_name) = Inr response
        \<and> status_code response = 200
        \<and> resp_json response = Some (JArr items)"
  then show "gl_app RHINO_API_KEY GITLAB_DOMAIN environ gl_up GlRepoStructure gl_req log =
             (Json (JObj [(''directories'', JArr (paths_of_type ''tree'' items)),
                          (''files'', JArr (paths_of_type ''blob'' items))]) 200,
              gl_log_b @ [gl_tree_call GITLAB_DOMAIN environ project gl_branch_name])"
    by (elim conjE)
      (simp add: gl_repo_structure_reaches_tree repo_structure_entries [OF entries] returning_def)
qed

lemma mixed_tree_entries: "\<forall>item \<in> set mixed_tree. is_entry item"
  by (simp add: mixed_tree_def is_entry_def entry_type_def entry_path_def)

lemma mixed_tree_paths:
  "paths_of_type ''tree'' mixed_tree = [JStr ''src'', JStr ''docs'']"
  "paths_of_type ''blob'' mixed_tree = [JStr ''src/a.py'', JStr ''README.md'']"
  by (simp_all add: mixed_tree_def paths_of_type_Cons entry_type_def entry_path_def)

theorem repo_structure_partition_witness:
  "list_all is_entry mixed_tree
   \<and> fst (gh_app (Some ''secret'') tokens gh_tree_provider RepoStructure gh_tree_request []) =
       Json (JObj [(''directories'', JArr [JStr ''src'', JStr ''docs'']),
                   (''files'', JArr [JStr ''src/a.py'', JStr ''README.md''])]) 200
   \<and> fst (gl_app (Some ''secret'') ''gitlab.com'' tokens gl_tree_provider GlRepoStructure
            gl_tree_request []) =
       Json (JObj [(''directories'', JArr [JStr ''src'', JStr ''docs'']),
                   (''files'', JArr [JStr ''src/a.py'', JStr ''README.md''])]) 200"
proof -
  note inst = repo_structure_partition [OF mixed_tree_entries,
      where RHINO_API_KEY = "Some ''secret''" and environ = tokens and log = "[]"
        and req = gh_tree_request and repo = "''acme/widgets''" and up = gh_tree_provider
        and branch_name = "JStr ''dev''" and log_b = "[]"
        and commits_response = "answer 200 [] (Some (JObj [(''sha'', JStr ''abc123'')]))"
        and commit = "JObj [(''sha'', JStr ''abc123'')]" and sha = "JStr ''abc123''"
        and trees_response =
          "answer 200 [] (Some (JObj [(''sha'', JStr ''abc123''), (''tree'', JArr mixed_tree)]))"
        and tree_json = "JObj [(''sha'', JStr ''abc123''), (''tree'', JArr mixed_tree)]"
        and gl_req = gl_tree_request and project = "''acme/widgets''"
        and GITLAB_DOMAIN = "''gitlab.com''" and gl_up = gl_tree_provider
        and gl_branch_name = "JStr ''dev''" and gl_log_b = "[]"
        and response = "answer 200 [] (Some (JArr mixed_tree))"]
  have gh: "gh_app (Some ''secret'') tokens gh_tree_provider RepoStructure gh_tree_request [] =
             (Json (JObj [(''directories'', JArr (paths_of_type ''tree'' mixed_tree)),
                          (''files'', JArr (paths_of_type ''blob'' mixed_tree))]) 200,
              [] @ [gh_commits_call tokens ''acme/widgets'' (JStr ''dev''),
                    gh_trees_call tokens ''acme/widgets'' (JStr ''abc123'')])"
    by (rule inst [THEN conjunct2, THEN conjunct1, rule_format])
      (simp add: authorized_def gh_tree_request_def mk_request_def gh_default_branch_def
        args_get_def str_or_none_def gh_tree_provider_def scripted_def answer_def py_get_def
        py_get_default_def)
  have gl: "gl_app (Some ''secret'') ''gitlab.com'' tokens gl_tree_provider GlRepoStructure
              gl_tree_request [] =
             (Json (JObj [(''directories'', JArr (paths_of_type ''tree'' mixed_tree)),
                          (''files'', JArr (paths_of_type ''blob'' mixed_tree))]) 200,
              [] @ [gl_tree_call ''gitlab.com'' tokens ''acme/widgets'' (JStr ''dev'')])"
    by (rule inst [THEN conjunct2, THEN conjunct2, rule_format])
      (simp add: authorized_def gl_tree_request_def mk_request_def gl_default_branch_def
        args_get_def str_or_none_def gl_tree_provider_def scripted_def answer_def)
  show ?thesis
    using mixed_tree_entries by (simp add: gh gl mixed_tree_paths list_all_iff)
qed


text \<open>
  Claim C10. An entry whose type is neither \<^verbatim>\<open>tree\<close> nor \<^verbatim>\<open>blob\<close> is left out of both
  lists without an error: the loop, and with it the answer of either handler, is what it
  would be had the provider not listed the entry. So the two lists together can hold fewer
  paths than the provider sent.
\<close>

theorem other_entry_types_omitted:
  assumes other: "py_subscript item ''type'' = Inr t" "t \<noteq> JStr ''tree''" "t \<noteq> JStr ''blob''"
  shows "partition_tree (xs @ item # ys) ds fs = partition_tree (xs @ ys) ds fs
    \<and> (authorized RHINO_API_KEY req
        \<and> req_args req ''repo_full_name'' = Some repo \<and> CHR ''/'' \<in> set repo
        \<and> length (py_split repo CHR ''/'') = 2
        \<and> gh_default_branch environ up (JStr repo) (args_get req ''branch_name'') log
            = (Inr branch_name, log_b)
        \<and> up log_b (gh_commits_call environ repo branch_name) = Inr commits_response
        \<and> status_code commits_response = 200
        \<and> resp_json commits_response = Some commit
        \<and> py_get commit ''sha'' = Inr sha \<and> truthy sha
        \<and> up (log_b @ [gh_commits_call environ repo branch_name]) (gh_trees_call environ repo sha)
            = Inr trees_response
        \<and> status_code trees_response = 200
        \<and> resp_json trees_response = Some tree_json
        \<and> py_get_default tree_json ''tree'' (JArr []) = Inr (JArr (xs @ item # ys))
       \<longrightarrow> gh_app RHINO_API_KEY environ up RepoStructure req log =
             returning (repo_structure (JArr (xs @ ys)))
               (log_b @ [gh_commits_call environ repo branch_name,
                         gh_trees_call environ repo sha]))
    \<and> (authorized RHINO_API_KEY gl_req
        \<and> req_args gl_req ''project_id'' = Some project \<and> project \<noteq> []
        \<and> gl_default_branch GITLAB_DOMAIN environ gl_up (JStr project)
             (args_get gl_req ''branch_name'') log = (Inr gl_branch_name, gl_log_b)
        \<and> gl_up gl_log_b (gl_tree_call GITLAB_DOMAIN environ project gl_branch_name) = Inr response
        \<and> status_code response = 200
        \<and> resp_json response = Some (JArr (xs @ item # ys))
       \<longrightarrow> gl_app RHINO_API_KEY GITLAB_DOMAIN environ gl_up GlRepoStructure gl_req log =
             returning (repo_structure (JArr (xs @ ys)))
               (gl_log_b @ [gl_tree_call GITLAB_DOMAIN environ project gl_branch_name]))"
proof (intro conjI impI)
  show "partition_tree (xs @ item # ys) ds fs = partition_tree (xs @ ys) ds fs"
    by (rule partition_tree_skip [OF other])
next
  assume "authorized RHINO_API_KEY req
        \<and> req_args req ''repo_full_name'' = Some repo \<and> CHR ''/'' \<in> set repo
        \<and> length (py_split repo CHR ''/'') = 2
        \<and> gh_default_branch environ up (JStr repo) (args_get req ''branch_name'') log
            = (Inr branch_name, log_b)
        \<and> up log_b (gh_commits_call environ repo branch_name) = Inr commits_response
        \<and> status_code commits_response = 200
        \<and> resp_json commits_response = Some commit
        \<and> py_get commit ''sha'' = Inr sha \<and> truthy sha
        \<and> up (log_b @ [gh_commits_call environ repo branch_name]) (gh_trees_call environ repo sha)
            = Inr trees_response
        \<and> status_code trees_response = 200
        \<and> resp_json trees_response = Some tree_json
        \<and> py_get_default tree_json ''tree'' (JArr []) = Inr (JArr (xs @ item # ys))"
  then show "gh_app RHINO_API_KEY environ up RepoStructure req log =
             returning (repo_structure (JArr (xs @ ys)))
               (log_b @ [gh_commits_call environ repo branch_name,
                         gh_trees_call environ repo sha])"
    by (elim conjE) (simp add: gh_repo_structure_reaches_tree repo_structure_skip [OF other])
next
  assume "authorized RHINO_API_KEY gl_req
        \<and> req_args gl_req ''project_id'' = Some project \<and> project \<noteq> []
        \<and> gl_default_branch GITLAB_DOMAIN environ gl_up (JStr project)
             (args_get gl_req ''branch_name'') log = (Inr gl_branch_name, gl_log_b)
        \<and> gl_up gl_log_b (gl_tree_call GITLAB_DOMAIN environ project gl_branch_name) = Inr response
        \<and> status_code response = 200
        \<and> resp_json response = Some (JArr (xs @ item # ys))"
  then show "gl_app RHINO_API_KEY GITLAB_DOMAIN environ gl_up GlRepoStructure gl_req log =
             returning (repo_structure (JArr (xs @ ys)))
               (gl_log_b @ [gl_tree_call GITLAB_DOMAIN environ project gl_branch_name])"
    by (elim conjE) (simp add: gl_repo_structure_reaches_tree repo_structure_skip [OF other])
qed

lemma mixed_tree_split: "mixed_tree = tree_before @ submodule_entry # tree_after"
  by (simp add: mixed_tree_def tree_before_def tree_after_def submodule_entry_def)

theorem other_entry_types_omitted_witness:
  "py_subscript submodule_entry ''type'' = Inr (JStr ''commit'')
   \<and> entry_path submodule_entry = Some (JStr ''vendor/lib'')
   \<and> partition_tree (tree_before @ submodule_entry # tree_after) [] [] =
       Inr ([JStr ''src'', JStr ''docs''], [JStr ''src/a.py'', JStr ''README.md''])
   \<and> JStr ''vendor/lib'' \<notin> set [JStr ''src'', JStr ''docs'', JStr ''src/a.py'', JStr ''README.md'']
   \<and> gh_app (Some ''secret'') tokens gh_tree_provider RepoStructure gh_tree_request [] =
       returning (repo_structure (JArr (tree_before @ tree_after)))
         [gh_commits_call tokens ''acme/widgets'' (JStr ''dev''),
          gh_trees_call tokens ''acme/widgets'' (JStr ''abc123'')]
   \<and> gl_app (Some ''secret'') ''gitlab.com'' tokens gl_tree_provider GlRepoStructure
        gl_tree_request [] =
       returning (repo_structure (JArr (tree_before @ tree_after)))
         [gl_tree_call ''gitlab.com'' tokens ''acme/widgets'' (JStr ''dev'')]"
proof -
  have other: "py_subscript submodule_entry ''type'' = Inr (JStr ''commit'')"
    by (simp add: submodule_entry_def py_subscript_def)
  have ne: "JStr ''commit'' \<noteq> JStr ''tree''" "JStr ''commit'' \<noteq> JStr ''blob''"
    by simp_all
  note inst = other_entry_types_omitted [OF other ne,
      where xs = tree_before and ys = tree_after and ds = "[]" and fs = "[]"
        and RHINO_API_KEY = "Some ''secret''" and environ = tokens and log = "[]"
        and req = gh_tree_request and repo = "''acme/widgets''" and up = gh_tree_provider
        and branch_name = "JStr ''dev''" and log_b = "[]"
        and commits_response = "answer 200 [] (Some (JObj [(''sha'', JStr ''abc123'')]))"
        and commit = "JObj [(''sha'', JStr ''abc123'')]" and sha = "JStr ''abc123''"
        and trees_response =
          "answer 200 [] (Some (JObj [(''sha'', JStr ''abc123''), (''tree'', JArr mixed_tree)]))"
        and tree_json = "JObj [(''sha'', JStr ''abc123''), (''tree'', JArr mixed_tree)]"
        and gl_req = gl_tree_request and project = "''acme/widgets''"
        and GITLAB_DOMAIN = "''gitlab.com''" and gl_up = gl_tree_provider
        and gl_branch_name = "JStr ''dev''" and gl_log_b = "[]"
        and response = "answer 200 [] (Some (JArr mixed_tree))"]
  have loop: "partition_tree (tree_before @ submodule_entry # tree_after) [] [] =
               Inr ([JStr ''src'', JStr ''docs''], [JStr ''src/a.py'', JStr ''README.md''])"
    using inst [THEN conjunct1]
    by (simp add: tree_before_def tree_after_def py_subscript_def)
  have gh: "gh_app (Some ''secret'') tokens gh_tree_provider RepoStructure gh_tree_request [] =
             returning (repo_structure (JArr (tree_before @ tree_after)))
               ([] @ [gh_commits_call tokens ''acme/widgets'' (JStr ''dev''),
                      gh_trees_call tokens ''acme/widgets'' (JStr ''abc123'')])"
    by (rule inst [THEN conjunct2, THEN conjunct1, rule_format])
      (simp add: authorized_def gh_tree_request_def mk_request_def gh_default_branch_def
        args_get_def str_or_none_def gh_tree_provider_def scripted_def answer_def py_get_def
        py_get_default_def mixed_tree_split)
  have gl: "gl_app (Some ''secret'') ''gitlab.com'' tokens gl_tree_provider GlRepoStructure
              gl_tree_request [] =
             returning (repo_structure (JArr (tree_before @ tree_after)))
               ([] @ [gl_tree_call ''gitlab.com'' tokens ''acme/widgets'' (JStr ''dev'')])"
    by (rule inst [THEN conjunct2, THEN conjunct2, rule_format])
      (simp add: authorized_def gl_tree_request_def mk_request_def gl_default_branch_def
        args_get_def str_or_none_def gl_tree_provider_def scripted_def answer_def
        mixed_tree_split)
  show ?thesis
    using other loop gh gl by (simp add: submodule_entry_def entry_path_def)
qed

lemma gh_check_branch_exists_eq:
  "gh_check_branch_exists environ up repo_full_name (JStr b) log =
     (case up log (gh_probe environ repo_full_name b) of
        Inl e \<Rightarrow> Inl e
      | Inr response \<Rightarrow> Inr (status_code response = 200),
      log @ [gh_probe environ repo_full_name b])"
  by (simp add: gh_check_branch_exists_def gh_probe_def gh_headers_def requests_get_def Let_def
      split: sum.splits)

lemma gl_check_branch_exists_eq:
  "gl_check_branch_exists GITLAB_DOMAIN environ up (JStr project) (JStr b) log =
     (case up log (gl_probe GITLAB_DOMAIN environ project b) of
        Inl e \<Rightarrow> Inl e
      | Inr response \<Rightarrow> Inr (status_code response = 200),
      log @ [gl_probe GITLAB_DOMAIN environ project b])"
  by (simp add: gl_check_branch_exists_def gl_probe_def gl_headers_def requests_get_def Let_def
      quote_plus_def split: sum.splits)

lemma gh_default_branch_cases:
  "truthy b \<Longrightarrow> gh_default_branch environ up repo b log = (Inr b, log)"
  "\<not> truthy b \<Longrightarrow> up log (gh_probe environ repo ''main'') = Inr r_main \<Longrightarrow>
   status_code r_main = 200 \<Longrightarrow>
   gh_default_branch environ up repo b log =
     (Inr (JStr ''main''), log @ [gh_probe environ repo ''main''])"
  "\<not> truthy b \<Longrightarrow> up log (gh_probe environ repo ''main'') = Inr r_main \<Longrightarrow>
   status_code r_main \<noteq> 200 \<Longrightarrow>
   up (log @ [gh_probe environ repo ''main'']) (gh_probe environ repo ''master'') = Inr r_master \<Longrightarrow>
   status_code r_master = 200 \<Longrightarrow>
   gh_default_branch environ up repo b log =
     (Inr (JStr ''master''),
      log @ [gh_probe environ repo ''main'', gh_probe environ repo ''master''])"
  "\<not> truthy b \<Longrightarrow> up log (gh_probe environ repo ''main'') = Inr r_main \<Longrightarrow>
   status_code r_main \<noteq> 200 \<Longrightarrow>
   up (log @ [gh_probe environ repo ''main'']) (gh_probe environ repo ''master'') = Inr r_master \<Longrightarrow>
   status_code r_master \<noteq> 200 \<Longrightarrow>
   gh_default_branch environ up repo b log =
     (Inl no_branch_found,
      log @ [gh_probe environ repo ''main'', gh_probe environ repo ''master''])"
  by (simp_all add: gh_default_branch_def gh_check_branch_exists_eq no_branch_found_def)

lemma gl_default_branch_cases:
  "truthy b \<Longrightarrow> gl_default_branch D environ up (JStr p) b log = (Inr b, log)"
  "\<not> truthy b \<Longrightarrow> up log (gl_probe D environ p ''main'') = Inr r_main \<Longrightarrow>
   status_code r_main = 200 \<Longrightarrow>
   gl_default_branch D environ up (JStr p) b log =
     (Inr (JStr ''main''), log @ [gl_probe D environ p ''main''])"
  "\<not> truthy b \<Longrightarrow> up log (gl_probe D environ p ''main'') = Inr r_main \<Longrightarrow>
   status_code r_main \<noteq> 200 \<Longrightarrow>
   up (log @ [gl_probe D environ p ''main'']) (gl_probe D environ p ''master'') = Inr r_master \<Longrightarrow>
   status_code r_master = 200 \<Longrightarrow>
   gl_default_branch D environ up (JStr p) b log =
     (Inr (JStr ''master''), log @ [gl_probe D environ p ''main'', gl_probe D environ p ''master''])"
  "\<not> truthy b \<Longrightarrow> up log (gl_probe D environ p ''main'') = Inr r_main \<Longrightarrow>
   status_code r_main \<noteq> 200 \<Longrightarrow>
   up (log @ [gl_probe D environ p ''main'']) (gl_probe D environ p ''master'') = Inr r_master \<Longrightarrow>
   status_code r_master \<noteq> 200 \<Longrightarrow>
   gl_default_branch D environ up (JStr p) b log =
     (Inl no_branch_found, log @ [gl_probe D environ p ''main'', gl_probe D environ p ''master''])"
  by (simp_all add: gl_default_branch_def gl_check_branch_exists_eq no_branch_found_def)

text \<open>How the four handlers use the block.\<close>

lemma gh_file_content_uses_branch:
  assumes auth: "authorized RHINO_API_KEY req"
  shows "gh_default_branch environ up (args_get req ''repo_full_name'')
           (args_get req ''branch_name'') log = (Inl out, log_b) \<Longrightarrow>
         gh_app RHINO_API_KEY environ up FileContent req log = (out, log_b)"
    and "gh_default_branch environ up (args_get req ''repo_full_name'')
           (args_get req ''branch_name'') log = (Inr branch_name, log_b) \<Longrightarrow>
         req_args req ''repo_full_name'' = Some repo \<Longrightarrow> repo \<noteq> [] \<Longrightarrow>
         req_args req ''file_path'' = Some file_path \<Longrightarrow> file_path \<noteq> [] \<Longrightarrow>
         snd (gh_app RHINO_API_KEY environ up FileContent req log) =
           log_b @ [gh_contents_call environ repo file_path branch_name]"
  by (auto simp: gh_app_def authorized_runs_view [OF auth] gh_get_file_content_def Let_def
      args_get_def str_or_none_def requests_get_def gh_contents_call_def gh_headers_def
      gh_decode_content_def os_environ_get_def
      split: sum.splits option.splits)

lemma gh_repo_structure_uses_branch:
  assumes auth: "authorized RHINO_API_KEY req"
  shows "gh_default_branch environ up (args_get req ''repo_full_name'')
           (args_get req ''branch_name'') log = (Inl out, log_b) \<Longrightarrow>
         gh_app RHINO_API_KEY environ up RepoStructure req log = (out, log_b)"
    and "gh_default_branch environ up (args_get req ''repo_full_name'')
           (args_get req ''branch_name'') log = (Inr branch_name, log_b) \<Longrightarrow>
         req_args req ''repo_full_name'' = Some repo \<Longrightarrow> CHR ''/'' \<in> set repo \<Longrightarrow>
         length (py_split repo CHR ''/'') = 2 \<Longrightarrow>
         \<exists>rest. snd (gh_app RHINO_API_KEY environ up RepoStructure req log) =
           log_b @ gh_commits_call environ repo branch_name # rest
           \<and> (rest = [] \<or> (\<exists>sha. rest = [gh_trees_call environ repo sha]))"
  by (auto simp: gh_app_def authorized_runs_view [OF auth] gh_get_repo_structure_def Let_def
      args_get_def str_or_none_def requests_get_def gh_commits_call_def gh_trees_call_def
      gh_headers_def with_details_def returning_def os_environ_get_def
      split: sum.splits option.splits)

lemma gl_file_content_uses_branch:
  assumes auth: "authorized RHINO_API_KEY req"
    and args: "req_args req ''project_id'' = Some project" "project \<noteq> []"
      "req_args req ''file_path'' = Some file_path" "file_path \<noteq> []"
  shows "gl_default_branch D environ up (JStr project) (args_get req ''branch_name'') log
           = (Inl out, log_b) \<Longrightarrow>
         gl_app RHINO_API_KEY D environ up GlFileContent req log = (out, log_b)"
    and "gl_default_branch D environ up (JStr project) (args_get req ''branch_name'') log
           = (Inr branch_name, log_b) \<Longrightarrow>
         snd (gl_app RHINO_API_KEY D environ up GlFileContent req log) =
           log_b @ [gl_file_call D environ project file_path branch_name]"
  using args
  by (auto simp: gl_app_def authorized_runs_view [OF auth] gl_get_file_content_def Let_def
      args_get_def str_or_none_def requests_get_def gl_file_call_def gl_headers_def
      quote_plus_def split: sum.splits option.splits)

lemma gl_repo_structure_uses_branch:
  assumes auth: "authorized RHINO_API_KEY req"
    and args: "req_args req ''project_id'' = Some project" "project \<noteq> []"
  shows "gl_default_branch D environ up (JStr project) (args_get req ''branch_name'') log
           = (Inl out, log_b) \<Longrightarrow>
         gl_app RHINO_API_KEY D environ up GlRepoStructure req log = (out, log_b)"
    and "gl_default_branch D environ up (JStr project) (args_get req ''branch_name'') log
           = (Inr branch_name, log_b) \<Longrightarrow>
         snd (gl_app RHINO_API_KEY D environ up GlRepoStructure req log) =
           log_b @ [gl_tree_call D environ project branch_name]"
  using args
  by (auto simp: gl_app_def authorized_runs_view [OF auth] gl_get_repo_structure_def Let_def
      args_get_def str_or_none_def requests_get_def gl_tree_call_def gl_headers_def
      quote_plus_def returning_def split: sum.splits option.splits)

section \<open>Branch resolution\<close>

text \<open>
  Claim C3. The block that resolves the branch, in both services: a non-empty
  \<^verbatim>\<open>branch_name\<close> is kept as it is and nothing is sent; without one, the branch \<^verbatim>\<open>main\<close> is
  probed first and is the result when the provider answers 200, in which case \<^verbatim>\<open>master\<close>
  is not probed; when the answer for \<^verbatim>\<open>main\<close> is not 200, \<^verbatim>\<open>master\<close> is probed next and is
  the result on a 200; when neither answer is 200 the block ends the request with the 404
  answer \<^verbatim>\<open>No main or master branch found\<close>. The handlers \<^verbatim>\<open>get_file_content\<close> and
  \<^verbatim>\<open>get_repo_structure\<close> answer with what the block ends the request with, and otherwise
  send their next call for the branch the block resolved, after the calls of the block
  and no others.
\<close>

theorem branch_resolution:
  "(truthy b \<longrightarrow>
      gh_default_branch environ up repo_full_name b log = (Inr b, log)
      \<and> gl_default_branch GITLAB_DOMAIN environ up (JStr project) b log = (Inr b, log))
   \<and> (\<not> truthy b \<and> up log (gh_probe environ repo_full_name ''main'') = Inr r_main
        \<and> status_code r_main = 200 \<longrightarrow>
      gh_default_branch environ up repo_full_name b log =
        (Inr (JStr ''main''), log @ [gh_probe environ repo_full_name ''main'']))
   \<and> (\<not> truthy b \<and> up log (gh_probe environ repo_full_name ''main'') = Inr r_main
        \<and> status_code r_main \<noteq> 200
        \<and> up (log @ [gh_probe environ repo_full_name ''main''])
             (gh_probe environ repo_full_name ''master'') = Inr r_master \<longrightarrow>
      gh_default_branch environ up repo_full_name b log =
        (if status_code r_master = 200 then Inr (JStr ''master'') else Inl no_branch_found,
         log @ [gh_probe environ repo_full_name ''main'',
                gh_probe environ repo_full_name ''master'']))
   \<and> (\<not> truthy b \<and> up log (gl_probe GITLAB_DOMAIN environ project ''main'') = Inr r_main
        \<and> status_code r_main = 200 \<longrightarrow>
      gl_default_branch GITLAB_DOMAIN environ up (JStr project) b log =
        (Inr (JStr ''main''), log @ [gl_probe GITLAB_DOMAIN environ project ''main'']))
   \<and> (\<not> truthy b \<and> up log (gl_probe GITLAB_DOMAIN environ project ''main'') = Inr r_main
        \<and> status_code r_main \<noteq> 200
        \<and> up (log @ [gl_probe GITLAB_DOMAIN environ project ''main''])
             (gl_probe GITLAB_DOMAIN environ project ''master'') = Inr r_master \<longrightarrow>
      gl_default_branch GITLAB_DOMAIN environ up (JStr project) b log =
        (if status_code r_master = 200 then Inr (JStr ''master'') else Inl no_branch_found,
         log @ [gl_probe GITLAB_DOMAIN environ project ''main'',
                gl_probe GITLAB_DOMAIN environ project ''master'']))
   \<and> (authorized RHINO_API_KEY req
        \<and> gh_default_branch environ up (args_get req ''repo_full_name'')
             (args_get req ''branch_name'') log = (Inl out, log_b) \<longrightarrow>
      gh_app RHINO_API_KEY environ up FileContent req log = (out, log_b)
      \<and> gh_app RHINO_API_KEY environ up RepoStructure req log = (out, log_b))
   \<and> (authorized RHINO_API_KEY req
        \<and> gh_default_branch environ up (args_get req ''repo_full_name'')
             (args_get req ''branch_name'') log = (Inr branch_name, log_b)
        \<and> req_args req ''repo_full_name'' = Some repo \<and> repo \<noteq> []
        \<and> req_args req ''file_path'' = Some file_path \<and> file_path \<noteq> [] \<longrightarrow>
      snd (gh_app RHINO_API_KEY environ up FileContent req log) =
        log_b @ [gh_contents_call environ repo file_path branch_name])
   \<and> (authorized RHINO_API_KEY req
        \<and> gh_default_branch environ up (args_get req ''repo_full_name'')
             (args_get req ''branch_name'') log = (Inr branch_name, log_b)
        \<and> req_args req ''repo_full_name'' = Some repo \<and> CHR ''/'' \<in> set repo
        \<and> length (py_split repo CHR ''/'') = 2 \<longrightarrow>
      (\<exists>rest. snd (gh_app RHINO_API_KEY environ up RepoStructure req log) =
                 log_b @ gh_commits_call environ repo branch_name # rest
               \<and> (rest = [] \<or> (\<exists>sha. rest = [gh_trees_call environ repo sha]))))
   \<and> (authorized RHINO_API_KEY req
        \<and> req_args req ''project_id'' = Some project \<and> project \<noteq> []
        \<and> gl_default_branch GITLAB_DOMAIN environ up (JStr project)
             (args_get req ''branch_name'') log = (Inl out, log_b) \<longrightarrow>
      gl_app RHINO_API_KEY GITLAB_DOMAIN environ up GlRepoStructure req log = (out, log_b)
      \<and> (req_args req ''file_path'' = Some file_path \<and> file_path \<noteq> [] \<longrightarrow>
           gl_app RHINO_API_KEY GITLAB_DOMAIN environ up GlFileContent req log = (out, log_b)))
   \<and> (authorized RHINO_API_KEY req
        \<and> req_args req ''project_id'' = Some project \<and> project \<noteq> []
        \<and> gl_default_branch GITLAB_DOMAIN environ up (JStr project)
             (args_get req ''branch_name'') log = (Inr branch_name, log_b) \<longrightarrow>
      snd (gl_app RHINO_API_KEY GITLAB_DOMAIN environ up GlRepoStructure req log) =
        log_b @ [gl_tree_call GITLAB_DOMAIN environ project branch_name]
      \<and> (req_args req ''file_path'' = Some file_path \<and> file_path \<noteq> [] \<longrightarrow>
           snd (gl_app RHINO_API_KEY GITLAB_DOMAIN environ up GlFileContent req log) =
             log_b @ [gl_file_call GITLAB_DOMAIN environ project file_path branch_name]))"
proof (intro conjI impI; (elim conjE)?)
  show "gh_default_branch environ up repo_full_name b log = (Inr b, log)" if "truthy b"
    using that by (rule gh_default_branch_cases(1))
  show "gl_default_branch GITLAB_DOMAIN environ up (JStr project) b log = (Inr b, log)"
    if "truthy b"
    using that by (rule gl_default_branch_cases(1))
  show "gh_default_branch environ up repo_full_name b log =
          (Inr (JStr ''main''), log @ [gh_probe environ repo_full_name ''main''])"
    if "\<not> truthy b" "up log (gh_probe environ repo_full_name ''main'') = Inr r_main"
      "status_code r_main = 200"
    using that by (rule gh_default_branch_cases(2))
  show "gh_default_branch environ up repo_full_name b log =
        (if status_code r_master = 200 then Inr (JStr ''master'') else Inl no_branch_found,
         log @ [gh_probe environ repo_full_name ''main'',
                gh_probe environ repo_full_name ''master''])"
    if "\<not> truthy b" "up log (gh_probe environ repo_full_name ''main'') = Inr r_main"
      "status_code r_main \<noteq> 200"
      "up (log @ [gh_probe environ repo_full_name ''main''])
             (gh_probe environ repo_full_name ''master'') = Inr r_master"
    using gh_default_branch_cases(3,4) [OF that] by simp
  show "gl_default_branch GITLAB_DOMAIN environ up (JStr project) b log =
        (Inr (JStr ''main''), log @ [gl_probe GITLAB_DOMAIN environ project ''main''])"
    if "\<not> truthy b" "up log (gl_probe GITLAB_DOMAIN environ project ''main'') = Inr r_main"
      "status_code r_main = 200"
    using that by (rule gl_default_branch_cases(2))
  show "gl_default_branch GITLAB_DOMAIN environ up (JStr project) b log =
        (if status_code r_master = 200 then Inr (JStr ''master'') else Inl no_branch_found,
         log @ [gl_probe GITLAB_DOMAIN environ project ''main'',
                gl_probe GITLAB_DOMAIN environ project ''master''])"
    if "\<not> truthy b" "up log (gl_probe GITLAB_DOMAIN environ project ''main'') = Inr r_main"
      "status_code r_main \<noteq> 200"
      "up (log @ [gl_probe GITLAB_DOMAIN environ project ''main''])
             (gl_probe GITLAB_DOMAIN environ project ''master'') = Inr r_master"
    using gl_default_branch_cases(3,4) [OF that] by simp
  show "gh_app RHINO_API_KEY environ up FileContent req log = (out, log_b)"
    if "authorized RHINO_API_KEY req"
      "gh_default_branch environ up (args_get req ''repo_full_name'')
             (args_get req ''branch_name'') log = (Inl out, log_b)"
    using that by (rule gh_file_content_uses_branch(1))
  show "gh_app RHINO_API_KEY environ up RepoStructure req log = (out, log_b)"
    if "authorized RHINO_API_KEY req"
      "gh_default_branch environ up (args_get req ''repo_full_name'')
             (args_get req ''branch_name'') log = (Inl out, log_b)"
    using that by (rule gh_repo_structure_uses_branch(1))
  show "snd (gh_app RHINO_API_KEY environ up FileContent req log) =
        log_b @ [gh_contents_call environ repo file_path branch_name]"
    if "authorized RHINO_API_KEY req"
      "gh_default_branch environ up (args_get req ''repo_full_name'')
             (args_get req ''branch_name'') log = (Inr branch_name, log_b)"
      "req_args req ''repo_full_name'' = Some repo" "repo \<noteq> []"
      "req_args req ''file_path'' = Some file_path" "file_path \<noteq> []"
    using that by (rule gh_file_content_uses_branch(2))
  show "\<exists>rest. snd (gh_app RHINO_API_KEY environ up RepoStructure req log) =
                 log_b @ gh_commits_call environ repo branch_name # rest
               \<and> (rest = [] \<or> (\<exists>sha. rest = [gh_trees_call environ repo sha]))"
    if "authorized RHINO_API_KEY req"
      "gh_default_branch environ up (args_get req ''repo_full_name'')
             (args_get req ''branch_name'') log = (Inr branch_name, log_b)"
      "req_args req ''repo_full_name'' = Some repo" "CHR ''/'' \<in> set repo"
      "length (py_split repo CHR ''/'') = 2"
    using that by (rule gh_repo_structure_uses_branch(2))
  show "gl_app RHINO_API_KEY GITLAB_DOMAIN environ up GlRepoStructure req log = (out, log_b)"
    if "authorized RHINO_API_KEY req" "req_args req ''project_id'' = Some project"
      "project \<noteq> []"
      "gl_default_branch GITLAB_DOMAIN environ up (JStr project)
             (args_get req ''branch_name'') log = (Inl out, log_b)"
    using that by (rule gl_repo_structure_uses_branch(1))
  show "gl_app RHINO_API_KEY GITLAB_DOMAIN environ up GlFileContent req log = (out, log_b)"
    if "authorized RHINO_API_KEY req" "req_args req ''project_id'' = Some project"
      "project \<noteq> []"
      "gl_default_branch GITLAB_DOMAIN environ up (JStr project)
             (args_get req ''branch_name'') log = (Inl out, log_b)"
      "req_args req ''file_path'' = Some file_path" "file_path \<noteq> []"
    using that(1-3,5,6,4) by (rule gl_file_content_uses_branch(1))
  show "snd (gl_app RHINO_API_KEY GITLAB_DOMAIN environ up GlRepoStructure req log) =
        log_b @ [gl_tree_call GITLAB_DOMAIN environ project branch_name]"
    if "authorized RHINO_API_KEY req" "req_args req ''project_id'' = Some project"
      "project \<noteq> []"
      "gl_default_branch GITLAB_DOMAIN environ up (JStr project)
             (args_get req ''branch_name'') log = (Inr branch_name, log_b)"
    using that by (rule gl_repo_structure_uses_branch(2))
  show "snd (gl_app RHINO_API_KEY GITLAB_DOMAIN environ up GlFileContent req log) =
             log_b @ [gl_file_call GITLAB_DOMAIN environ project file_path branch_name]"
    if "authorized RHINO_API_KEY req" "req_args req ''project_id'' = Some project"
      "project \<noteq> []"
      "gl_default_branch GITLAB_DOMAIN environ up (JStr project)
             (args_get req ''branch_name'') log = (Inr branch_name, log_b)"
      "req_args req ''file_path'' = Some file_path" "file_path \<noteq> []"
    using that(1-3,5,6,4) by (rule gl_file_content_uses_branch(2))
qed

theorem branch_resolution_witness:
  "gh_default_branch tokens (scripted []) (JStr ''acme/widgets'') (JStr ''dev'') []
     = (Inr (JStr ''dev''), [])
   \<and> gh_default_branch tokens (scripted [found]) (JStr ''acme/widgets'') JNull []
     = (Inr (JStr ''main''), [gh_probe tokens (JStr ''acme/widgets'') ''main''])
   \<and> snd (gh_app (Some ''secret'') tokens (scripted [not_found, found, hello_content]) FileContent
            gh_file_request [])
     = [gh_probe tokens (JStr ''acme/widgets'') ''main'',
        gh_probe tokens (JStr ''acme/widgets'') ''master'',
        gh_contents_call tokens ''acme/widgets'' ''README.md'' (JStr ''master'')]
   \<and> gl_app (Some ''secret'') ''gitlab.com'' tokens (scripted [not_found, not_found]) GlFileContent
        gl_file_request []
     = (no_branch_found,
        [gl_probe ''gitlab.com'' tokens ''acme/widgets'' ''main'',
         gl_probe ''gitlab.com'' tokens ''acme/widgets'' ''master''])"
proof -
  have auth: "authorized (Some ''secret'') gh_file_request"
    "authorized (Some ''secret'') gl_file_request"
    by (simp_all add: authorized_def gh_file_request_def gl_file_request_def mk_request_def)
  have gh_args: "args_get gh_file_request ''repo_full_name'' = JStr ''acme/widgets''"
    "args_get gh_file_request ''branch_name'' = JNull"
    "req_args gh_file_request ''repo_full_name'' = Some ''acme/widgets''"
    "req_args gh_file_request ''file_path'' = Some ''README.md''"
    by (simp_all add: args_get_def str_or_none_def gh_file_request_def mk_request_def)
  have gl_args: "args_get gl_file_request ''branch_name'' = JNull"
    "req_args gl_file_request ''project_id'' = Some ''acme/widgets''"
    "req_args gl_file_request ''file_path'' = Some ''README.md''"
    by (simp_all add: args_get_def str_or_none_def gl_file_request_def mk_request_def)
  have explicit: "gh_default_branch tokens (scripted []) (JStr ''acme/widgets'') (JStr ''dev'') []
     = (Inr (JStr ''dev''), [])"
    using branch_resolution [where b = "JStr ''dev''" and environ = tokens and up = "scripted []"
        and repo_full_name = "JStr ''acme/widgets''" and log = "[]"]
    by simp
  have main: "gh_default_branch tokens (scripted [found]) (JStr ''acme/widgets'') JNull []
     = (Inr (JStr ''main''), [gh_probe tokens (JStr ''acme/widgets'') ''main''])"
    using branch_resolution [where b = JNull and environ = tokens and up = "scripted [found]"
        and repo_full_name = "JStr ''acme/widgets''" and log = "[]" and r_main = found]
    by (simp add: scripted_def found_def answer_def)
  have master: "gh_default_branch tokens (scripted [not_found, found, hello_content])
                  (JStr ''acme/widgets'') JNull []
     = (Inr (JStr ''master''), [gh_probe tokens (JStr ''acme/widgets'') ''main'',
                                gh_probe tokens (JStr ''acme/widgets'') ''master''])"
    using branch_resolution [where b = JNull and environ = tokens
        and up = "scripted [not_found, found, hello_content]"
        and repo_full_name = "JStr ''acme/widgets''" and log = "[]" and r_main = not_found
        and r_master = found]
    by (simp add: scripted_def found_def not_found_def answer_def)
  have sent: "snd (gh_app (Some ''secret'') tokens (scripted [not_found, found, hello_content])
                     FileContent gh_file_request [])
     = [gh_probe tokens (JStr ''acme/widgets'') ''main'',
        gh_probe tokens (JStr ''acme/widgets'') ''master''] @
       [gh_contents_call tokens ''acme/widgets'' ''README.md'' (JStr ''master'')]"
    using branch_resolution [where RHINO_API_KEY = "Some ''secret''" and req = gh_file_request
        and environ = tokens and up = "scripted [not_found, found, hello_content]"
        and log = "[]" and branch_name = "JStr ''master''" and repo = "''acme/widgets''"
        and file_path = "''README.md''"
        and log_b = "[gh_probe tokens (JStr ''acme/widgets'') ''main'',
                      gh_probe tokens (JStr ''acme/widgets'') ''master'']"]
    by (simp add: auth gh_args master)
  have none: "gl_default_branch ''gitlab.com'' tokens (scripted [not_found, not_found])
                (JStr ''acme/widgets'') JNull []
     = (Inl no_branch_found, [gl_probe ''gitlab.com'' tokens ''acme/widgets'' ''main'',
                              gl_probe ''gitlab.com'' tokens ''acme/widgets'' ''master''])"
    using branch_resolution [where b = JNull and environ = tokens
        and up = "scripted [not_found, not_found]" and GITLAB_DOMAIN = "''gitlab.com''"
        and project = "''acme/widgets''" and log = "[]" and r_main = not_found
        and r_master = not_found]
    by (simp add: scripted_def not_found_def answer_def)
  have ended: "gl_app (Some ''secret'') ''gitlab.com'' tokens (scripted [not_found, not_found])
                 GlFileContent gl_file_request []
     = (no_branch_found,
        [gl_probe ''gitlab.com'' tokens ''acme/widgets'' ''main'',
         gl_probe ''gitlab.com'' tokens ''acme/widgets'' ''master''])"
    using branch_resolution [where RHINO_API_KEY = "Some ''secret''" and req = gl_file_request
        and environ = tokens and up = "scripted [not_found, not_found]"
        and GITLAB_DOMAIN = "''gitlab.com''" and project = "''acme/widgets''"
        and log = "[]" and out = no_branch_found and file_path = "''README.md''"
        and log_b = "[gl_probe ''gitlab.com'' tokens ''acme/widgets'' ''main'',
                      gl_probe ''gitlab.com'' tokens ''acme/widgets'' ''master'']"]
    by (simp add: auth gl_args none)
  show ?thesis
    using explicit main sent ended by simp
qed

lemma gh_comment_general:
  assumes run: "gh_app RHINO_API_KEY environ up SubmitPrComment req log = (out, log')"
    and called: "log' \<noteq> log"
    and answered: "up log (last log') = Inr response"
  shows "log' = log @ [last log'] \<and> meth (last log') = POST
       \<and> out = (if status_code response = 201 then comment_created
                else comment_failed (status_code response))"
  using assms
  by (auto simp: gh_app_def require_api_key_def gh_submit_pr_comment_def json_get_def
      requests_post_def post_call_def Let_def comment_created_def comment_failed_def
      split: if_splits sum.splits)

lemma gl_comment_general:
  assumes run: "gl_app RHINO_API_KEY GITLAB_DOMAIN environ up SubmitMrComment req log = (out, log')"
    and called: "log' \<noteq> log"
    and answered: "up log (last log') = Inr response"
  shows "log' = log @ [last log'] \<and> meth (last log') = POST
       \<and> out = (if status_code response = 201 then comment_created
                else comment_failed (status_code response))"
  using assms
  by (auto simp: gl_app_def require_api_key_def gl_submit_mr_comment_def json_get_def
      requests_post_def post_call_def Let_def comment_created_def comment_failed_def
      split: if_splits sum.splits)

lemma gh_comment_posted:
  assumes auth: "authorized RHINO_API_KEY req"
    and token: "environ ''GITHUB_TOKEN'' = Some token" "token \<noteq> []"
    and body: "req_json req = Inr body"
      "py_get body ''repo_full_name'' = Inr repo_full_name" "truthy repo_full_name"
      "py_get body ''pr_number'' = Inr pr_number" "truthy pr_number"
      "py_get body ''comment_body'' = Inr comment_body" "truthy comment_body"
    and answered: "up log (gh_comment_call token repo_full_name pr_number comment_body)
                     = Inr response"
  shows "gh_app RHINO_API_KEY environ up SubmitPrComment req log =
           (if status_code response = 201 then comment_created
            else comment_failed (status_code response),
            log @ [gh_comment_call token repo_full_name pr_number comment_body])"
  using token body answered
  by (simp add: gh_app_def authorized_runs_view [OF auth] gh_submit_pr_comment_def json_get_def
      requests_post_def Let_def os_environ_get_def str_or_none_def gh_comment_call_def
      comment_created_def comment_failed_def)

lemma gl_comment_posted:
  assumes auth: "authorized RHINO_API_KEY req"
    and token: "environ ''GITLAB_PRIVATE_TOKEN'' = Some token" "token \<noteq> []"
    and body: "req_json req = Inr body"
      "py_get body ''project_id'' = Inr (JStr project)" "project \<noteq> []"
      "py_get body ''mr_iid'' = Inr mr_iid" "truthy mr_iid"
      "py_get body ''comment_body'' = Inr comment_body" "truthy comment_body"
    and answered: "up log (gl_comment_call GITLAB_DOMAIN token project mr_iid comment_body)
                     = Inr response"
  shows "gl_app RHINO_API_KEY GITLAB_DOMAIN environ up SubmitMrComment req log =
           (if status_code response = 201 then comment_created
            else comment_failed (status_code response),
            log @ [gl_comment_call GITLAB_DOMAIN token project mr_iid comment_body])"
  using token body answered
  by (simp add: gl_app_def authorized_runs_view [OF auth] gl_submit_mr_comment_def json_get_def
      requests_post_def Let_def os_environ_get_def str_or_none_def gl_comment_call_def
      quote_plus_def comment_created_def comment_failed_def)

text \<open>A \<^verbatim>\<open>project_id\<close> that is not a string (a JSON number, say) is refused by
  \<^verbatim>\<open>quote_plus\<close>: the GitLab handler raises before it posts anything.\<close>

lemma gl_comment_project_not_a_string:
  assumes auth: "authorized RHINO_API_KEY req"
    and token: "environ ''GITLAB_PRIVATE_TOKEN'' = Some token" "token \<noteq> []"
    and body: "req_json req = Inr body"
      "py_get body ''project_id'' = Inr project_id" "truthy project_id"
      "\<forall>s. project_id \<noteq> JStr s"
      "py_get body ''mr_iid'' = Inr mr_iid" "truthy mr_iid"
      "py_get body ''comment_body'' = Inr comment_body" "truthy comment_body"
  shows "gl_app RHINO_API_KEY GITLAB_DOMAIN environ up SubmitMrComment req log
           = (Raise TypeError, log)"
  using token body
  by (cases project_id)
    (simp_all add: gl_app_def authorized_runs_view [OF auth] gl_submit_mr_comment_def
      json_get_def Let_def os_environ_get_def str_or_none_def quote_plus_def)

section \<open>Comment submission\<close>

text \<open>
  Claim C6. In both services, an authorized request whose JSON body has the three
  parameters, all truthy, is posted to the provider once (the token being set, and for
  GitLab \<^verbatim>\<open>project_id\<close> being a string, without which nothing is posted), and the
  provider's answer decides the outcome: status 201 gives
  \<^verbatim>\<open>Comment created successfully\<close> with status 201, and any other status \<open>s\<close> (200 too)
  gives an error object whose \<^verbatim>\<open>code\<close> is \<open>s\<close>, with status \<open>s\<close>. Conversely, whenever
  a comment handler has called the provider at all, it has made exactly one call, a POST,
  and its outcome is the one the answer decides.
\<close>

theorem comment_submission:
  "(authorized RHINO_API_KEY req
      \<and> environ ''GITHUB_TOKEN'' = Some token \<and> token \<noteq> []
      \<and> req_json req = Inr body
      \<and> py_get body ''repo_full_name'' = Inr repo_full_name \<and> truthy repo_full_name
      \<and> py_get body ''pr_number'' = Inr pr_number \<and> truthy pr_number
      \<and> py_get body ''comment_body'' = Inr comment_body \<and> truthy comment_body
      \<and> up log (gh_comment_call token repo_full_name pr_number comment_body) = Inr response
     \<longrightarrow> gh_app RHINO_API_KEY environ up SubmitPrComment req log =
           (if status_code response = 201 then comment_created
            else comment_failed (status_code response),
            log @ [gh_comment_call token repo_full_name pr_number comment_body]))
   \<and> (authorized RHINO_API_KEY req
      \<and> environ ''GITLAB_PRIVATE_TOKEN'' = Some token \<and> token \<noteq> []
      \<and> req_json req = Inr body
      \<and> py_get body ''project_id'' = Inr (JStr project) \<and> project \<noteq> []
      \<and> py_get body ''mr_iid'' = Inr mr_iid \<and> truthy mr_iid
      \<and> py_get body ''comment_body'' = Inr comment_body \<and> truthy comment_body
      \<and> up log (gl_comment_call GITLAB_DOMAIN token project mr_iid comment_body) = Inr response
     \<longrightarrow> gl_app RHINO_API_KEY GITLAB_DOMAIN environ up SubmitMrComment req log =
           (if status_code response = 201 then comment_created
            else comment_failed (status_code response),
            log @ [gl_comment_call GITLAB_DOMAIN token project mr_iid comment_body]))
   \<and> (gh_app RHINO_API_KEY environ up SubmitPrComment req log = (out, log')
      \<and> log' \<noteq> log \<and> up log (last log') = Inr response \<longrightarrow>
    log' = log @ [last log'] \<and> meth (last log') = POST
    \<and> out = (if status_code response = 201 then comment_created
             else comment_failed (status_code response)))
   \<and> (gl_app RHINO_API_KEY GITLAB_DOMAIN environ up SubmitMrComment req log = (out, log')
      \<and> log' \<noteq> log \<and> up log (last log') = Inr response \<longrightarrow>
    log' = log @ [last log'] \<and> meth (last log') = POST
    \<and> out = (if status_code response = 201 then comment_created
             else comment_failed (status_code response)))"
proof (intro conjI impI; (elim conjE)?)
  show "gh_app RHINO_API_KEY environ up SubmitPrComment req log =
           (if status_code response = 201 then comment_created
            else comment_failed (status_code response),
            log @ [gh_comment_call token repo_full_name pr_number comment_body])"
    if "authorized RHINO_API_KEY req" "environ ''GITHUB_TOKEN'' = Some token" "token \<noteq> []"
      "req_json req = Inr body"
      "py_get body ''repo_full_name'' = Inr repo_full_name" "truthy repo_full_name"
      "py_get body ''pr_number'' = Inr pr_number" "truthy pr_number"
      "py_get body ''comment_body'' = Inr comment_body" "truthy comment_body"
      "up log (gh_comment_call token repo_full_name pr_number comment_body) = Inr response"
    using that by (rule gh_comment_posted)
  show "gl_app RHINO_API_KEY GITLAB_DOMAIN environ up SubmitMrComment req log =
           (if status_code response = 201 then comment_created
            else comment_failed (status_code response),
            log @ [gl_comment_call GITLAB_DOMAIN token project mr_iid comment_body])"
    if "authorized RHINO_API_KEY req" "environ ''GITLAB_PRIVATE_TOKEN'' = Some token"
      "token \<noteq> []" "req_json req = Inr body"
      "py_get body ''project_id'' = Inr (JStr project)" "project \<noteq> []"
      "py_get body ''mr_iid'' = Inr mr_iid" "truthy mr_iid"
      "py_get body ''comment_body'' = Inr comment_body" "truthy comment_body"
      "up log (gl_comment_call GITLAB_DOMAIN token project mr_iid comment_body) = Inr response"
    using that by (rule gl_comment_posted)
  show "log' = log @ [last log']" "meth (last log') = POST"
    "out = (if status_code response = 201 then comment_created
             else comment_failed (status_code response))"
    if "gh_app RHINO_API_KEY environ up SubmitPrComment req log = (out, log')"
      "log' \<noteq> log" "up log (last log') = Inr response"
    using gh_comment_general [OF that] by simp_all
  show "log' = log @ [last log']" "meth (last log') = POST"
    "out = (if status_code response = 201 then comment_created
             else comment_failed (status_code response))"
    if "gl_app RHINO_API_KEY GITLAB_DOMAIN environ up SubmitMrComment req log = (out, log')"
      "log' \<noteq> log" "up log (last log') = Inr response"
    using gl_comment_general [OF that] by simp_all
qed

lemma comment_posts:
  "gh_comment_call ''ghp_x'' (JStr ''acme/widgets'') (JInt 7) (JStr ''LGTM'') = gh_comment_post"
  "gl_comment_call ''gitlab.com'' ''glpat-x'' ''acme/widgets'' (JInt 3) (JStr ''LGTM'')
     = gl_comment_post"
  by (simp_all add: gh_comment_call_def gh_comment_post_def gl_comment_call_def
      gl_comment_post_def dec_int_def dec_nat.simps quote_byte_def always_safe_def
      hex_digit_def)

theorem comment_submission_witness:
  "authorized (Some ''secret'') gh_comment_request
   \<and> authorized (Some ''secret'') gl_comment_request
   \<and> gh_app (Some ''secret'') tokens (scripted [created]) SubmitPrComment gh_comment_request []
     = (comment_created, [gh_comment_post])
   \<and> gh_app (Some ''secret'') tokens (scripted [plain_ok]) SubmitPrComment gh_comment_request []
     = (comment_failed 200, [gh_comment_post])
   \<and> gl_app (Some ''secret'') ''gitlab.com'' tokens (scripted [created]) SubmitMrComment
        gl_comment_request []
     = (comment_created, [gl_comment_post])
   \<and> gl_app (Some ''secret'') ''gitlab.com'' tokens (scripted [plain_ok]) SubmitMrComment
        gl_comment_request []
     = (comment_failed 200, [gl_comment_post])"
proof -
  have auth: "authorized (Some ''secret'') gh_comment_request"
    "authorized (Some ''secret'') gl_comment_request"
    by (simp_all add: authorized_def gh_comment_request_def gl_comment_request_def
        mk_request_def)
  have bodies: "req_json gh_comment_request =
      Inr (JObj [(''repo_full_name'', JStr ''acme/widgets''), (''pr_number'', JInt 7),
                 (''comment_body'', JStr ''LGTM'')])"
    "req_json gl_comment_request =
      Inr (JObj [(''project_id'', JStr ''acme/widgets''), (''mr_iid'', JInt 3),
                 (''comment_body'', JStr ''LGTM'')])"
    by (simp_all add: gh_comment_request_def gl_comment_request_def mk_request_def)
  have gh: "gh_app (Some ''secret'') tokens (scripted [r]) SubmitPrComment gh_comment_request []
     = (if status_code r = 201 then comment_created else comment_failed (status_code r),
        [] @ [gh_comment_call ''ghp_x'' (JStr ''acme/widgets'') (JInt 7) (JStr ''LGTM'')])" for r
    by (rule comment_submission [where req = gh_comment_request and environ = tokens
          and body = "JObj [(''repo_full_name'', JStr ''acme/widgets''), (''pr_number'', JInt 7),
                            (''comment_body'', JStr ''LGTM'')]",
          THEN conjunct1, rule_format])
      (simp add: auth bodies tokens_def py_get_def py_get_default_def scripted_def)
  have gl: "gl_app (Some ''secret'') ''gitlab.com'' tokens (scripted [r]) SubmitMrComment
              gl_comment_request []
     = (if status_code r = 201 then comment_created else comment_failed (status_code r),
        [] @ [gl_comment_call ''gitlab.com'' ''glpat-x'' ''acme/widgets'' (JInt 3)
                (JStr ''LGTM'')])" for r
    by (rule comment_submission [where req = gl_comment_request and environ = tokens
          and body = "JObj [(''project_id'', JStr ''acme/widgets''), (''mr_iid'', JInt 3),
                            (''comment_body'', JStr ''LGTM'')]",
          THEN conjunct2, THEN conjunct1, rule_format])
      (simp add: auth bodies tokens_def py_get_def py_get_default_def scripted_def)
  show ?thesis
    using auth gh [of created] gh [of plain_ok] gl [of created] gl [of plain_ok]
    by (simp add: comment_posts created_def plain_ok_def answer_def)
qed

section \<open>File content of the GitHub service\<close>

text \<open>
  Claim C4. In the GitHub \<^verbatim>\<open>get_file_content\<close>, when the provider answers the contents
  request with 200 and a JSON \<^verbatim>\<open>content\<close> field that is a base64 payload: if the decoded
  bytes are valid UTF-8 the answer is \<^verbatim>\<open>{content: <decoded text>}\<close> with status 200; if they
  are not, the answer is a JSON object with a message, with status 500, and no exception
  leaves the handler.
\<close>

theorem file_content_decoding:
  assumes auth: "authorized RHINO_API_KEY req"
    and repo: "req_args req ''repo_full_name'' = Some repo" "repo \<noteq> []"
    and path: "req_args req ''file_path'' = Some file_path" "file_path \<noteq> []"
    and branch: "gh_default_branch environ up (JStr repo) (args_get req ''branch_name'') log
                   = (Inr branch_name, log_b)"
    and fetch: "up log_b (gh_contents_call environ repo file_path branch_name) = Inr response"
      "status_code response = 200"
      "resp_json response = Some body"
      "py_get body ''content'' = Inr encoded"
      "b64decode encoded = Inr bs"
  shows "(\<forall>decoded. decode_utf8 bs = Some decoded \<longrightarrow>
            gh_app RHINO_API_KEY environ up FileContent req log =
              (Json (JObj [(''content'', JStr decoded)]) 200,
               log_b @ [gh_contents_call environ repo file_path branch_name]))
       \<and> (decode_utf8 bs = None \<longrightarrow>
            gh_app RHINO_API_KEY environ up FileContent req log =
              (Json (JObj [(''error'',
                            JStr (binary_message_prefix @ file_path @ binary_message_suffix))])
                 500,
               log_b @ [gh_contents_call environ repo file_path branch_name]))"
proof -
  have args: "args_get req ''repo_full_name'' = JStr repo"
    "args_get req ''file_path'' = JStr file_path"
    by (simp_all add: args_get_def str_or_none_def repo path)
  have not_null: "encoded \<noteq> JNull"
    using fetch(5) by (auto simp: b64decode_def)
  have run: "gh_app RHINO_API_KEY environ up FileContent req log =
               gh_decode_content (JStr file_path) response
                 (log_b @ [gh_contents_call environ repo file_path branch_name])"
    using repo(2) path(2) branch fetch(1,2)
    by (simp add: gh_app_def authorized_runs_view [OF auth] gh_get_file_content_def args
        requests_get_def Let_def gh_contents_call_def gh_headers_def)
  show ?thesis
    using fetch(3,4,5) not_null
    by (simp add: run gh_decode_content_def response_json_def)
qed

theorem file_content_decoding_witness:
  "b64decode (JStr ''aGVsbG8='') = Inr [104, 101, 108, 108, 111]
   \<and> decode_utf8 [104, 101, 108, 108, 111] = Some ''hello''
   \<and> gh_app (Some ''secret'') tokens (scripted [found, hello_content]) FileContent
        gh_file_request []
      = (Json (JObj [(''content'', JStr ''hello'')]) 200,
         [gh_probe tokens (JStr ''acme/widgets'') ''main'',
          gh_contents_call tokens ''acme/widgets'' ''README.md'' (JStr ''main'')])
   \<and> b64decode (JStr ''/w=='') = Inr [255]
   \<and> decode_utf8 [255] = None
   \<and> gh_app (Some ''secret'') tokens (scripted [found, binary_content]) FileContent
        gh_file_request []
      = (Json (JObj [(''error'',
                      JStr (binary_message_prefix @ ''README.md'' @ binary_message_suffix))]) 500,
         [gh_probe tokens (JStr ''acme/widgets'') ''main'',
          gh_contents_call tokens ''acme/widgets'' ''README.md'' (JStr ''main'')])"
proof -
  have auth: "authorized (Some ''secret'') gh_file_request"
    by (simp add: authorized_def gh_file_request_def mk_request_def)
  have args: "req_args gh_file_request ''repo_full_name'' = Some ''acme/widgets''"
    "req_args gh_file_request ''file_path'' = Some ''README.md''"
    "args_get gh_file_request ''branch_name'' = JNull"
    by (simp_all add: args_get_def str_or_none_def gh_file_request_def mk_request_def)
  have branch: "gh_default_branch tokens (scripted (found # rs)) (JStr ''acme/widgets'')
                  (args_get gh_file_request ''branch_name'') []
                = (Inr (JStr ''main''), [gh_probe tokens (JStr ''acme/widgets'') ''main''])" for rs
    by (simp add: args gh_default_branch_cases(2) [where r_main = found] scripted_def found_def
        answer_def)
  have hello: "b64decode (JStr ''aGVsbG8='') = Inr [104, 101, 108, 108, 111]"
    by (simp add: b64decode_def b64_alphabet_def)
  have valid: "decode_utf8 [104, 101, 108, 108, 111] = Some ''hello''"
    by code_simp
  have binary: "b64decode (JStr ''/w=='') = Inr [255]"
    by (simp add: b64decode_def b64_alphabet_def)
  have invalid: "decode_utf8 [255] = None"
    by (simp add: decode_utf8_def)
  have decoded: "gh_app (Some ''secret'') tokens (scripted [found, hello_content]) FileContent
        gh_file_request []
      = (Json (JObj [(''content'', JStr ''hello'')]) 200,
         [gh_probe tokens (JStr ''acme/widgets'') ''main''] @
         [gh_contents_call tokens ''acme/widgets'' ''README.md'' (JStr ''main'')])"
    by (rule file_content_decoding [where response = hello_content
            and body = "JObj [(''content'', JStr ''aGVsbG8='')]",
          OF auth args(1) _ args(2) _ branch _ _ _ _ hello,
          THEN conjunct1, rule_format, OF _ _ _ _ _ _ valid])
       (simp_all add: scripted_def hello_content_def answer_def py_get_def py_get_default_def)
  have refused: "gh_app (Some ''secret'') tokens (scripted [found, binary_content]) FileContent
        gh_file_request []
      = (Json (JObj [(''error'',
                      JStr (binary_message_prefix @ ''README.md'' @ binary_message_suffix))]) 500,
         [gh_probe tokens (JStr ''acme/widgets'') ''main''] @
         [gh_contents_call tokens ''acme/widgets'' ''README.md'' (JStr ''main'')])"
    by (rule file_content_decoding [where response = binary_content
            and body = "JObj [(''content'', JStr ''/w=='')]",
          OF auth args(1) _ args(2) _ branch _ _ _ _ binary,
          THEN conjunct2, rule_format, OF _ _ _ _ _ _ invalid])
       (simp_all add: scripted_def binary_content_def answer_def py_get_def py_get_default_def)
  show ?thesis
    using hello valid binary invalid decoded refused by simp
qed

section \<open>A missing access token\<close>

text \<open>
  Claim C8, as the code has it: the two comment handlers test the token first, and with
  the token absent (or empty) they answer 401 without calling the provider. The other
  handlers do not test it: they format whatever the environment has into the header and
  call the provider, as the evaluation after the theorem shows for \<^verbatim>\<open>issue_info\<close>.
\<close>

theorem missing_token_rejects_comment:
  assumes auth: "authorized RHINO_API_KEY req"
  shows "(environ ''GITHUB_TOKEN'' = None \<or> environ ''GITHUB_TOKEN'' = Some [] \<longrightarrow>
            gh_app RHINO_API_KEY environ up SubmitPrComment req log
              = (token_not_set ''GitHub'', log))
       \<and> (environ ''GITLAB_PRIVATE_TOKEN'' = None \<or> environ ''GITLAB_PRIVATE_TOKEN'' = Some [] \<longrightarrow>
            gl_app RHINO_API_KEY GITLAB_DOMAIN environ up SubmitMrComment req log
              = (token_not_set ''GitLab'', log))"
  by (auto simp: gh_app_def gl_app_def authorized_runs_view [OF auth] gh_submit_pr_comment_def
      gl_submit_mr_comment_def os_environ_get_def str_or_none_def token_not_set_def)

theorem missing_token_rejects_comment_witness:
  "authorized (Some ''secret'') gh_comment_request
   \<and> gh_app (Some ''secret'') Map.empty (scripted [created]) SubmitPrComment gh_comment_request []
       = (token_not_set ''GitHub'', [])
   \<and> authorized (Some ''secret'') gl_comment_request
   \<and> gl_app (Some ''secret'') ''gitlab.com'' [''GITLAB_PRIVATE_TOKEN'' \<mapsto> []] (scripted [created])
        SubmitMrComment gl_comment_request []
       = (token_not_set ''GitLab'', [])"
proof -
  have gh: "authorized (Some ''secret'') gh_comment_request"
    by (simp add: authorized_def gh_comment_request_def mk_request_def)
  have gl: "authorized (Some ''secret'') gl_comment_request"
    by (simp add: authorized_def gl_comment_request_def mk_request_def)
  show ?thesis
    using gh gl
      missing_token_rejects_comment [OF gh, where environ = Map.empty]
      missing_token_rejects_comment [OF gl, where environ = "[''GITLAB_PRIVATE_TOKEN'' \<mapsto> []]"]
    by simp
qed

theorem missing_token_read_counterexample:
  "gh_app (Some ''secret'') Map.empty issue_provider IssueInfo issue_request []
     = (Json (JObj [(''title'', JStr ''Crash''), (''description'', JStr ''It fails'')]) 200,
        [get_call ''https://api.github.com/repos/acme/widgets/issues/7''
           [(''Authorization'', Some ''token None'')]])"
  by (simp add: gh_app_def require_api_key_def gh_get_issue_info_def issue_request_def
      mk_request_def args_get_def os_environ_get_def str_or_none_def requests_get_def Let_def
      issue_provider_def scripted_def answer_def returning_def response_json_def py_get_def
      py_get_default_def)

text \<open>The GitLab \<^verbatim>\<open>issue_info\<close> likewise: without the token it sends the call, with no
  value for the \<^verbatim>\<open>Private-Token\<close> header.\<close>

lemma gl_issue_info_without_token:
  "gl_app (Some ''secret'') ''gitlab.com'' Map.empty issue_provider GlIssueInfo gl_issue_request []
     = (Json (JObj [(''title'', JStr ''Crash''), (''description'', JNull)]) 200,
        [get_call ''https://gitlab.com/api/v4/projects/42/issues/7'' [(''Private-Token'', None)]])"
  by (simp add: gl_app_def require_api_key_def gl_get_issue_info_def gl_issue_request_def
      mk_request_def args_get_def str_or_none_def requests_get_def Let_def issue_provider_def
      scripted_def answer_def returning_def response_json_def py_get_def py_get_default_def
      quote_plus_def quote_byte_def always_safe_def)

lemmas run_defs =
  gh_app_def gl_app_def require_api_key_def mk_request_def args_get_def os_environ_get_def
  str_or_none_def requests_get_def get_call_def Let_def scripted_def answer_def tokens_def

section \<open>Missing parameters\<close>

text \<open>
  Claim C1 at three requests without \<^verbatim>\<open>file_path\<close>, \<^verbatim>\<open>repo_full_name\<close> or \<^verbatim>\<open>branch_name\<close>.
  The GitHub \<^verbatim>\<open>get_file_content\<close> and \<^verbatim>\<open>get_repo_structure\<close> resolve the branch before they
  look at the other parameters, so the provider is called (for the repository \<^verbatim>\<open>None\<close>
  when \<^verbatim>\<open>repo_full_name\<close> is missing) before the 400 answer, and when no branch is found
  the answer is the 404 of the branch block. The GitLab \<^verbatim>\<open>get_file_content\<close> looks at the
  parameters first and calls nothing.
\<close>

theorem github_probes_before_validation:
  "gh_app (Some ''secret'') tokens (scripted [found]) FileContent missing_path_request []
     = (missing ''Missing repo_full_name or file_path'',
        [get_call ''https://api.github.com/repos/acme/widgets/branches/main''
           [(''Authorization'', Some ''token ghp_x'')]])
   \<and> gh_app (Some ''secret'') tokens (scripted [found]) RepoStructure no_args_request []
     = (missing ''Invalid or missing repo_full_name'',
        [get_call ''https://api.github.com/repos/None/branches/main''
           [(''Authorization'', Some ''token ghp_x'')]])
   \<and> gh_app (Some ''secret'') tokens (scripted [not_found, not_found]) FileContent
        missing_path_request []
     = (no_branch_found,
        [get_call ''https://api.github.com/repos/acme/widgets/branches/main''
           [(''Authorization'', Some ''token ghp_x'')],
         get_call ''https://api.github.com/repos/acme/widgets/branches/master''
           [(''Authorization'', Some ''token ghp_x'')]])
   \<and> gl_app (Some ''secret'') ''gitlab.com'' tokens (scripted [found]) GlFileContent
        gl_missing_path_request []
     = (missing ''Missing project_id or file_path'', [])"
  by (simp add: run_defs gh_get_file_content_def gh_get_repo_structure_def
      gl_get_file_content_def gh_default_branch_def gh_check_branch_exists_def
      missing_path_request_def no_args_request_def gl_missing_path_request_def missing_def
      found_def not_found_def no_branch_found_def)

text \<open>What does hold: every other handler, and these two when the request names a branch,
  answer 400 without a call when a required parameter is missing or empty. The comment
  handlers do so once the token is set and the body is a JSON object.\<close>

lemma missing_parameter_fails_fast:
  assumes auth: "authorized RHINO_API_KEY req"
  shows "\<not> truthy (args_get req ''repo_full_name'') \<or> \<not> truthy (args_get req ''pr_number'') \<Longrightarrow>
           gh_app RHINO_API_KEY environ up PrContent req log
             = (missing ''Missing repo_full_name or pr_number'', log)"
    and "\<not> truthy (args_get req ''repo_full_name'') \<or> \<not> truthy (args_get req ''issue_number'') \<Longrightarrow>
           gh_app RHINO_API_KEY environ up IssueInfo req log
             = (missing ''Missing repo_full_name or issue_number'', log)"
    and "truthy (args_get req ''branch_name'') \<Longrightarrow>
         \<not> truthy (args_get req ''repo_full_name'') \<or> \<not> truthy (args_get req ''file_path'') \<Longrightarrow>
           gh_app RHINO_API_KEY environ up FileContent req log
             = (missing ''Missing repo_full_name or file_path'', log)"
    and "truthy (args_get req ''branch_name'') \<Longrightarrow>
         \<not> truthy (args_get req ''repo_full_name'') \<Longrightarrow>
           gh_app RHINO_API_KEY environ up RepoStructure req log
             = (missing ''Invalid or missing repo_full_name'', log)"
    and "truthy (os_environ_get environ ''GITHUB_TOKEN'') \<Longrightarrow> req_json req = Inr body \<Longrightarrow>
         py_get body ''repo_full_name'' = Inr a \<Longrightarrow> py_get body ''pr_number'' = Inr b \<Longrightarrow>
         py_get body ''comment_body'' = Inr c \<Longrightarrow>
         \<not> truthy a \<or> \<not> truthy b \<or> \<not> truthy c \<Longrightarrow>
           gh_app RHINO_API_KEY environ up SubmitPrComment req log
             = (missing ''Missing required parameters'', log)"
    and "\<not> truthy (args_get req ''project_id'') \<or> \<not> truthy (args_get req ''mr_iid'') \<Longrightarrow>
           gl_app RHINO_API_KEY GITLAB_DOMAIN environ up MrContent req log
             = (missing ''Missing project_id or mr_iid'', log)"
    and "\<not> truthy (args_get req ''project_id'') \<or> \<not> truthy (args_get req ''file_path'') \<Longrightarrow>
           gl_app RHINO_API_KEY GITLAB_DOMAIN environ up GlFileContent req log
             = (missing ''Missing project_id or file_path'', log)"
    and "\<not> truthy (args_get req ''project_id'') \<or> \<not> truthy (args_get req ''issue_iid'') \<Longrightarrow>
           gl_app RHINO_API_KEY GITLAB_DOMAIN environ up GlIssueInfo req log
             = (missing ''Missing project_id or issue_iid'', log)"
    and "\<not> truthy (args_get req ''project_id'') \<Longrightarrow>
           gl_app RHINO_API_KEY GITLAB_DOMAIN environ up GlRepoStructure req log
             = (missing ''Missing project_id'', log)"
    and "truthy (os_environ_get environ ''GITLAB_PRIVATE_TOKEN'') \<Longrightarrow>
         req_json req = Inr body \<Longrightarrow>
         py_get body ''project_id'' = Inr a \<Longrightarrow> py_get body ''mr_iid'' = Inr b \<Longrightarrow>
         py_get body ''comment_body'' = Inr c \<Longrightarrow>
         \<not> truthy a \<or> \<not> truthy b \<or> \<not> truthy c \<Longrightarrow>
           gl_app RHINO_API_KEY GITLAB_DOMAIN environ up SubmitMrComment req log
             = (missing ''Missing required parameters'', log)"
  by (auto simp: gh_app_def gl_app_def authorized_runs_view [OF auth] missing_def
      gh_get_pr_content_def gh_get_issue_info_def gh_get_file_content_def
      gh_get_repo_structure_def gh_submit_pr_comment_def gh_default_branch_def
      gl_get_mr_content_def gl_get_file_content_def gl_get_issue_info_def
      gl_get_repo_structure_def gl_submit_mr_comment_def json_get_def Let_def)

section \<open>The shape of the answers\<close>

text \<open>
  Claim C5 at a binary file. The GitHub \<^verbatim>\<open>get_file_content\<close> answers a payload that is
  not UTF-8 with an object whose only key is \<^verbatim>\<open>error\<close>: it is not the success shape of the
  endpoint and it has neither \<^verbatim>\<open>code\<close> nor \<^verbatim>\<open>message\<close>.
\<close>

theorem binary_file_error_shape:
  "gh_app (Some ''secret'') tokens (scripted [binary_content]) FileContent binary_file_request []
     = (Json (JObj [(''error'',
                     JStr (binary_message_prefix @ ''logo.png'' @ binary_message_suffix))]) 500,
        [gh_contents_call tokens ''acme/widgets'' ''logo.png'' (JStr ''dev'')])
   \<and> \<not> has_code_and_message
          (JObj [(''error'', JStr (binary_message_prefix @ ''logo.png'' @ binary_message_suffix))])
   \<and> \<not> has_keys (gh_success_keys FileContent)
          (JObj [(''error'', JStr (binary_message_prefix @ ''logo.png'' @ binary_message_suffix))])"
proof -
  have binary: "b64decode (JStr ''/w=='') = Inr [255]"
    by (simp add: b64decode_def b64_alphabet_def)
  have invalid: "decode_utf8 [255] = None"
    by (simp add: decode_utf8_def)
  have "gh_app (Some ''secret'') tokens (scripted [binary_content]) FileContent
          binary_file_request []
     = (Json (JObj [(''error'',
                     JStr (binary_message_prefix @ ''logo.png'' @ binary_message_suffix))]) 500,
        [gh_contents_call tokens ''acme/widgets'' ''logo.png'' (JStr ''dev'')])"
    by (simp add: run_defs gh_get_file_content_def gh_default_branch_def gh_decode_content_def
        binary_file_request_def binary_content_def gh_contents_call_def gh_headers_def
        response_json_def py_get_def py_get_default_def binary invalid)
  then show ?thesis
    by (simp add: has_code_and_message_def has_keys_def)
qed

lemma returning_Json:
  "returning m log = (Json body status, log') \<Longrightarrow> m = Inr body \<and> status = 200 \<and> log' = log"
  by (cases m) (auto simp: returning_def)

lemma and_then_Inr_iff:
  "and_then m k = Inr v \<longleftrightarrow> (\<exists>x. m = Inr x \<and> k x = Inr v)"
  by (cases m) (auto simp: and_then_def)

lemma repo_structure_keys:
  "repo_structure tree = Inr body \<Longrightarrow> has_keys [''directories'', ''files''] body"
  by (auto simp: repo_structure_def and_then_Inr_iff has_keys_def)

lemma gh_pr_content_shape:
  "gh_get_pr_content environ up req log = (Json body status, log') \<Longrightarrow>
     has_keys (gh_success_keys PrContent) body \<or> has_code_and_message body"
  by (auto simp: gh_get_pr_content_def Let_def has_code_and_message_def has_keys_def
      gh_pr_reshape_def and_then_Inr_iff
      split: if_splits sum.splits prod.splits dest!: returning_Json)

lemma gh_file_content_shape:
  "gh_get_file_content environ up req log = (Json body status, log') \<Longrightarrow>
     has_keys (gh_success_keys FileContent) body \<or> has_code_and_message body
     \<or> (status = 500 \<and> (\<exists>m. body = JObj [(''error'', JStr m)]))"
  by (auto simp: gh_get_file_content_def gh_default_branch_def Let_def has_code_and_message_def
      has_keys_def gh_decode_content_def
      split: if_splits sum.splits prod.splits bool.splits option.splits)

lemma gh_issue_info_shape:
  "gh_get_issue_info environ up req log = (Json body status, log') \<Longrightarrow>
     has_keys (gh_success_keys IssueInfo) body \<or> has_code_and_message body"
  by (auto simp: gh_get_issue_info_def Let_def has_code_and_message_def has_keys_def
      and_then_Inr_iff
      split: if_splits sum.splits prod.splits dest!: returning_Json)

lemma gh_submit_shape:
  "gh_submit_pr_comment environ up req log = (Json body status, log') \<Longrightarrow>
     has_keys (gh_success_keys SubmitPrComment) body \<or> has_code_and_message body"
  by (auto simp: gh_submit_pr_comment_def Let_def has_code_and_message_def has_keys_def
      json_get_def
      split: if_splits sum.splits prod.splits)

lemma gh_repo_structure_shape:
  "gh_get_repo_structure environ up req log = (Json body status, log') \<Longrightarrow>
     has_keys (gh_success_keys RepoStructure) body \<or> has_code_and_message body"
  by (auto simp: gh_get_repo_structure_def gh_default_branch_def Let_def
      has_code_and_message_def with_details_def and_then_Inr_iff
      split: if_splits sum.splits prod.splits bool.splits
      dest!: returning_Json repo_structure_keys)

lemma gl_mr_content_shape:
  "gl_get_mr_content D environ up req log = (Json body status, log') \<Longrightarrow>
     has_keys (gl_success_keys MrContent) body \<or> has_code_and_message body"
  by (auto simp: gl_get_mr_content_def Let_def has_code_and_message_def has_keys_def
      gl_mr_reshape_def and_then_Inr_iff
      split: if_splits sum.splits prod.splits dest!: returning_Json)

lemma gl_file_content_shape:
  "gl_get_file_content D environ up req log = (Json body status, log') \<Longrightarrow>
     has_keys (gl_success_keys GlFileContent) body \<or> has_code_and_message body"
  by (auto simp: gl_get_file_content_def gl_default_branch_def Let_def has_code_and_message_def
      has_keys_def
      split: if_splits sum.splits prod.splits bool.splits)

lemma gl_issue_info_shape:
  "gl_get_issue_info D environ up req log = (Json body status, log') \<Longrightarrow>
     has_keys (gl_success_keys GlIssueInfo) body \<or> has_code_and_message body"
  by (auto simp: gl_get_issue_info_def Let_def has_code_and_message_def has_keys_def
      and_then_Inr_iff
      split: if_splits sum.splits prod.splits dest!: returning_Json)

lemma gl_submit_shape:
  "gl_submit_mr_comment D environ up req log = (Json body status, log') \<Longrightarrow>
     has_keys (gl_success_keys SubmitMrComment) body \<or> has_code_and_message body"
  by (auto simp: gl_submit_mr_comment_def Let_def has_code_and_message_def has_keys_def
      json_get_def
      split: if_splits sum.splits prod.splits)

lemma gl_repo_structure_shape:
  "gl_get_repo_structure D environ up req log = (Json body status, log') \<Longrightarrow>
     has_keys (gl_success_keys GlRepoStructure) body \<or> has_code_and_message body"
  by (auto simp: gl_get_repo_structure_def gl_default_branch_def Let_def
      has_code_and_message_def and_then_Inr_iff
      split: if_splits sum.splits prod.splits bool.splits
      dest!: returning_Json repo_structure_keys)

text \<open>What does hold: every JSON answer of every endpoint of both services is the
  endpoint's success shape or has \<^verbatim>\<open>code\<close> and \<^verbatim>\<open>message\<close>, but for that one answer of
  the GitHub \<^verbatim>\<open>get_file_content\<close>.\<close>

lemma answer_shapes:
  "gh_app RHINO_API_KEY environ up gh_route req log = (Json body status, log') \<Longrightarrow>
     has_keys (gh_success_keys gh_route) body \<or> has_code_and_message body
     \<or> (gh_route = FileContent \<and> status = 500 \<and> (\<exists>m. body = JObj [(''error'', JStr m)]))"
  "gl_app RHINO_API_KEY GITLAB_DOMAIN environ up gl_route req log = (Json body status, log') \<Longrightarrow>
     has_keys (gl_success_keys gl_route) body \<or> has_code_and_message body"
proof -
  show "has_keys (gh_success_keys gh_route) body \<or> has_code_and_message body
     \<or> (gh_route = FileContent \<and> status = 500 \<and> (\<exists>m. body = JObj [(''error'', JStr m)]))"
    if "gh_app RHINO_API_KEY environ up gh_route req log = (Json body status, log')"
    using that gh_pr_content_shape [of environ up req log body status log']
      gh_file_content_shape [of environ up req log body status log']
      gh_issue_info_shape [of environ up req log body status log']
      gh_submit_shape [of environ up req log body status log']
      gh_repo_structure_shape [of environ up req log body status log']
    by (cases gh_route) (auto simp: gh_app_def require_api_key_def split: if_splits)
  show "has_keys (gl_success_keys gl_route) body \<or> has_code_and_message body"
    if "gl_app RHINO_API_KEY GITLAB_DOMAIN environ up gl_route req log = (Json body status, log')"
    using that gl_mr_content_shape [of GITLAB_DOMAIN environ up req log body status log']
      gl_file_content_shape [of GITLAB_DOMAIN environ up req log body status log']
      gl_issue_info_shape [of GITLAB_DOMAIN environ up req log body status log']
      gl_submit_shape [of GITLAB_DOMAIN environ up req log body status log']
      gl_repo_structure_shape [of GITLAB_DOMAIN environ up req log body status log']
    by (cases gl_route) (auto simp: gl_app_def require_api_key_def split: if_splits)
qed

end
